theory Spec2Isabelle
  imports Complex_Main
begin

section \<open>Hex coordinates (hexUtils)\<close>

text \<open>
  \<^verbatim>\<open>interface HexCoord { q: number; r: number }\<close> and
  \<^verbatim>\<open>interface CubeCoord { q: number; r: number; s: number }\<close>.
  Hex coordinates are integral JavaScript numbers; they are modelled as \<open>int\<close>.
  The selectors carry a one-letter prefix so that \<open>q\<close>, \<open>r\<close> and \<open>s\<close> stay
  available as variable names.
\<close>

datatype HexCoord = HexCoord (hq: int) (hr: int)

datatype CubeCoord = CubeCoord (cq: int) (cr: int) (cs: int)

text \<open>\<^verbatim>\<open>CUBE_DIRECTIONS\<close>, directions 0 to 5.\<close>

definition CUBE_DIRECTIONS :: "CubeCoord list" where
  "CUBE_DIRECTIONS =
     [CubeCoord 1 0 (-1), CubeCoord 1 (-1) 0, CubeCoord 0 (-1) 1,
      CubeCoord (-1) 0 1, CubeCoord (-1) 1 0, CubeCoord 0 1 (-1)]"

text \<open>
  \<^verbatim>\<open>distance(q1, r1, q2, r2)\<close>:
  \<^verbatim>\<open>(Math.abs(q1 - q2) + Math.abs(q1 + r1 - q2 - r2) + Math.abs(r1 - r2)) / 2\<close>.
  On integers the sum is even (lemma \<open>distance_sum_even\<close>), so the division is exact.
\<close>

definition distance :: "int \<Rightarrow> int \<Rightarrow> int \<Rightarrow> int \<Rightarrow> int" where
  "distance q1 r1 q2 r2 = (\<bar>q1 - q2\<bar> + \<bar>q1 + r1 - q2 - r2\<bar> + \<bar>r1 - r2\<bar>) div 2"

definition axialToCube :: "int \<Rightarrow> int \<Rightarrow> CubeCoord" where
  "axialToCube q r = CubeCoord q r (- q - r)"

definition cubeDistance :: "CubeCoord \<Rightarrow> CubeCoord \<Rightarrow> int" where
  "cubeDistance a b = max (max \<bar>cq a - cq b\<bar> \<bar>cr a - cr b\<bar>) \<bar>cs a - cs b\<bar>"

definition cube_add :: "CubeCoord \<Rightarrow> CubeCoord \<Rightarrow> CubeCoord" where
  "cube_add a b = CubeCoord (cq a + cq b) (cr a + cr b) (cs a + cs b)"

definition cube_scale :: "CubeCoord \<Rightarrow> int \<Rightarrow> CubeCoord" where
  "cube_scale h factor = CubeCoord (cq h * factor) (cr h * factor) (cs h * factor)"

text \<open>\<^verbatim>\<open>cubeNeighbor(cube, direction)\<close> reads \<^verbatim>\<open>CUBE_DIRECTIONS[direction % 6]\<close>.\<close>

definition cubeNeighbor :: "CubeCoord \<Rightarrow> nat \<Rightarrow> CubeCoord" where
  "cubeNeighbor cube direction = cube_add cube (CUBE_DIRECTIONS ! (direction mod 6))"

section \<open>Chunk packing neighbours (Chunk.calculateChunkNeighbors)\<close>

text \<open>
  The clockwise rotation \<^verbatim>\<open>(q, r) -> (q + r, -q)\<close> that both loops of
  \<^verbatim>\<open>calculateChunkNeighbors\<close> apply to \<^verbatim>\<open>(currentQ, currentR)\<close>.
\<close>

definition rotateCW :: "int \<times> int \<Rightarrow> int \<times> int" where
  "rotateCW p = (fst p + snd p, - fst p)"

text \<open>
  The second loop: six times, push \<^verbatim>\<open>center + current\<close> and rotate. The loop
  counter is the first argument.
\<close>

fun emitNeighbors :: "nat \<Rightarrow> HexCoord \<Rightarrow> int \<times> int \<Rightarrow> HexCoord list \<Rightarrow> HexCoord list" where
  "emitNeighbors 0 center cur neighbors = neighbors"
| "emitNeighbors (Suc n) center cur neighbors =
     emitNeighbors n center (rotateCW cur)
       (neighbors @ [HexCoord (hq center + fst cur) (hr center + snd cur)])"

text \<open>
  \<^verbatim>\<open>calculateChunkNeighbors(center, rings)\<close>. The ring count of a chunk is a
  non-negative integer, hence \<open>nat\<close>.
\<close>

definition calculateChunkNeighbors :: "HexCoord \<Rightarrow> nat \<Rightarrow> HexCoord list" where
  "calculateChunkNeighbors center rings =
     (let offset = (if rings = 0 then (1, 0) else (int rings, int rings + 1));
          current = (rotateCW ^^ 4) offset
      in emitNeighbors 6 center current [])"

section \<open>Ring and grid enumeration (hexUtils)\<close>

text \<open>
  \<^verbatim>\<open>cubeRing(center, radius)\<close>. The inner loop pushes a copy of \<^verbatim>\<open>currentHex\<close> and
  moves it to its neighbour in direction \<open>i\<close>, \<open>radius\<close> times; the outer loop does that
  for the directions 0 to 5. The loop state is the pair \<^verbatim>\<open>(currentHex, results)\<close>.
\<close>

definition ringSide :: "nat \<Rightarrow> nat \<Rightarrow> CubeCoord \<times> CubeCoord list \<Rightarrow> CubeCoord \<times> CubeCoord list" where
  "ringSide radius i st =
     fold (\<lambda>j (currentHex, results). (cubeNeighbor currentHex i, results @ [currentHex]))
       [0..<radius] st"

definition cubeRing :: "CubeCoord \<Rightarrow> nat \<Rightarrow> CubeCoord list" where
  "cubeRing center radius =
     (if radius = 0 then [center]
      else snd (fold (ringSide radius) [0..<6]
                  (cube_add center (cube_scale (CUBE_DIRECTIONS ! 4) (int radius)), [])))"

text \<open>
  \<^verbatim>\<open>Set.add\<close>: a JavaScript \<^verbatim>\<open>Set\<close> keeps its elements in insertion order and
  ignores an element it already holds.
\<close>

definition set_add :: "'a \<Rightarrow> 'a list \<Rightarrow> 'a list" where
  "set_add k ks = (if k \<in> set ks then ks else ks @ [k])"

text \<open>
  \<^verbatim>\<open>generateHexGrid(maxLayer, centerQ, centerR)\<close>. The source keys the set by the
  string \<^verbatim>\<open>`${cube.q},${cube.r},${cube.s}`\<close> and parses the three integers back;
  printing and parsing an integer triple is injective, so the key is the cube
  coordinate itself. \<open>gridSet\<close> is the set after the loop over the layers
  \<^verbatim>\<open>0 <= layer <= maxLayer\<close>. The size check at the end only logs and is left out.
\<close>

definition gridSet :: "CubeCoord \<Rightarrow> nat \<Rightarrow> CubeCoord list" where
  "gridSet centerCube maxLayer =
     fold (\<lambda>layer gs. fold set_add (cubeRing centerCube layer) gs) [0..<Suc maxLayer] []"

definition generateHexGrid :: "nat \<Rightarrow> int \<Rightarrow> int \<Rightarrow> HexCoord list" where
  "generateHexGrid maxLayer centerQ centerR =
     (let centerCube = axialToCube centerQ centerR
      in map (\<lambda>k. HexCoord (cq k) (cr k))
           (filter (\<lambda>k. cq k + cr k + cs k = 0) (gridSet centerCube maxLayer)))"

section \<open>JavaScript numbers (IEEE 754 doubles)\<close>

text \<open>
  World coordinates and the hex size are JavaScript numbers, that is IEEE 754 binary64
  values. A finite double is modelled by the real number it denotes, next to the two
  infinities and \<^verbatim>\<open>NaN\<close>. The sign of zero is not part of the model: \<open>Finite 0\<close> stands
  for both zeros, and a division by zero takes the zero as positive.
\<close>

datatype float64 = Finite real | PosInfinity | NegInfinity | NotANumber

text \<open>
  The finite doubles are the numbers \<open>n * 2 ^ e\<close> with \<open>\<bar>n\<bar> < 2 ^ 53\<close> and
  \<open>-1074 \<le> e \<le> 971\<close>. \<open>pow2 k\<close> is \<open>2 ^ (k - 1074)\<close>, so that \<open>pow2 0\<close> is the smallest
  positive double and \<open>pow2 2098 = 2 ^ 1024\<close> is the overflow threshold.
\<close>

definition pow2 :: "nat \<Rightarrow> real" where
  "pow2 k = 2 ^ k / 2 ^ 1074"

text \<open>Rounding to the nearest integer, ties to the even one.\<close>

definition roundEven :: "real \<Rightarrow> int" where
  "roundEven y =
     (let f = \<lfloor>y\<rfloor>
      in if y - of_int f < 1 / 2 then f
         else if y - of_int f > 1 / 2 then f + 1
         else if even f then f else f + 1)"

text \<open>
  The binade of a real \<open>x\<close>: the least \<open>b\<close> with \<open>\<bar>x\<bar> < pow2 (b + 53)\<close>, at most 2045.
  The doubles of binade \<open>b\<close> are spaced by \<open>pow2 b\<close>; binade 0 holds the subnormal
  numbers and the first normal ones, binade 2045 the largest ones.
\<close>

fun binadeFrom :: "nat \<Rightarrow> nat \<Rightarrow> real \<Rightarrow> nat" where
  "binadeFrom 0 b x = b"
| "binadeFrom (Suc n) b x = (if \<bar>x\<bar> < pow2 (b + 53) then b else binadeFrom n (Suc b) x)"

definition binade :: "real \<Rightarrow> nat" where
  "binade x = binadeFrom 2045 0 x"

definition quantum :: "real \<Rightarrow> real" where
  "quantum x = pow2 (binade x)"

text \<open>
  \<open>fl x\<close> is the double that an operation with exact result \<open>x\<close> returns: \<open>x\<close> rounded
  to the nearest double, ties to even, and an infinity when the rounded value reaches
  \<open>2 ^ 1024\<close>.
\<close>

definition fl :: "real \<Rightarrow> float64" where
  "fl x =
     (let v = of_int (roundEven (x / quantum x)) * quantum x
      in if v \<ge> pow2 2098 then PosInfinity
         else if v \<le> - pow2 2098 then NegInfinity
         else Finite v)"

text \<open>
  The operators \<^verbatim>\<open>-x\<close>, \<^verbatim>\<open>+\<close>, \<^verbatim>\<open>-\<close>, \<^verbatim>\<open>*\<close>, \<^verbatim>\<open>/\<close> and \<^verbatim>\<open>>\<close> of JavaScript on
  doubles.
\<close>

fun fneg :: "float64 \<Rightarrow> float64" where
  "fneg (Finite x) = Finite (- x)"
| "fneg PosInfinity = NegInfinity"
| "fneg NegInfinity = PosInfinity"
| "fneg NotANumber = NotANumber"

fun fadd :: "float64 \<Rightarrow> float64 \<Rightarrow> float64" where
  "fadd (Finite x) (Finite y) = fl (x + y)"
| "fadd NotANumber b = NotANumber"
| "fadd a NotANumber = NotANumber"
| "fadd PosInfinity NegInfinity = NotANumber"
| "fadd NegInfinity PosInfinity = NotANumber"
| "fadd PosInfinity b = PosInfinity"
| "fadd a PosInfinity = PosInfinity"
| "fadd NegInfinity b = NegInfinity"
| "fadd a NegInfinity = NegInfinity"

definition fsub :: "float64 \<Rightarrow> float64 \<Rightarrow> float64" where
  "fsub a b = fadd a (fneg b)"

fun signedInfinity :: "bool \<Rightarrow> float64" where
  "signedInfinity True = PosInfinity"
| "signedInfinity False = NegInfinity"

fun fmul :: "float64 \<Rightarrow> float64 \<Rightarrow> float64" where
  "fmul (Finite x) (Finite y) = fl (x * y)"
| "fmul NotANumber b = NotANumber"
| "fmul a NotANumber = NotANumber"
| "fmul PosInfinity (Finite y) = (if y = 0 then NotANumber else signedInfinity (0 < y))"
| "fmul NegInfinity (Finite y) = (if y = 0 then NotANumber else signedInfinity (y < 0))"
| "fmul (Finite x) PosInfinity = (if x = 0 then NotANumber else signedInfinity (0 < x))"
| "fmul (Finite x) NegInfinity = (if x = 0 then NotANumber else signedInfinity (x < 0))"
| "fmul PosInfinity PosInfinity = PosInfinity"
| "fmul NegInfinity NegInfinity = PosInfinity"
| "fmul PosInfinity NegInfinity = NegInfinity"
| "fmul NegInfinity PosInfinity = NegInfinity"

fun fdiv :: "float64 \<Rightarrow> float64 \<Rightarrow> float64" where
  "fdiv (Finite x) (Finite y) =
     (if y = 0 then (if x = 0 then NotANumber else signedInfinity (0 < x)) else fl (x / y))"
| "fdiv NotANumber b = NotANumber"
| "fdiv a NotANumber = NotANumber"
| "fdiv (Finite x) b = Finite 0"
| "fdiv PosInfinity (Finite y) = signedInfinity (0 \<le> y)"
| "fdiv NegInfinity (Finite y) = signedInfinity (y < 0)"
| "fdiv a b = NotANumber"

fun fgt :: "float64 \<Rightarrow> float64 \<Rightarrow> bool" where
  "fgt (Finite x) (Finite y) = (x > y)"
| "fgt NotANumber b = False"
| "fgt a NotANumber = False"
| "fgt NegInfinity b = False"
| "fgt a PosInfinity = False"
| "fgt a b = True"

text \<open>
  \<^verbatim>\<open>Math.round\<close> is \<open>\<lfloor>x + 1/2\<rfloor>\<close> computed exactly (the result is a double whenever \<open>x\<close>
  is one), \<^verbatim>\<open>Math.abs\<close> is exact, \<^verbatim>\<open>Math.sqrt\<close> is correctly rounded.
\<close>

fun Math_round :: "float64 \<Rightarrow> float64" where
  "Math_round (Finite x) = Finite (of_int \<lfloor>x + 1 / 2\<rfloor>)"
| "Math_round a = a"

fun Math_abs :: "float64 \<Rightarrow> float64" where
  "Math_abs (Finite x) = Finite \<bar>x\<bar>"
| "Math_abs NotANumber = NotANumber"
| "Math_abs a = PosInfinity"

fun Math_sqrt :: "float64 \<Rightarrow> float64" where
  "Math_sqrt (Finite x) = (if x < 0 then NotANumber else fl (sqrt x))"
| "Math_sqrt PosInfinity = PosInfinity"
| "Math_sqrt a = NotANumber"

section \<open>World coordinates (hexUtils)\<close>

text \<open>
  \<^verbatim>\<open>hexToWorld(q, r, hexSize)\<close> and \<^verbatim>\<open>worldToHex(x, z, hexSize)\<close>, operation by
  operation in the order in which JavaScript evaluates them. The arguments and the
  results are doubles; the objects \<^verbatim>\<open>{ x, z }\<close> and \<^verbatim>\<open>{ q, r }\<close> that they return are
  the pairs \<open>(x, z)\<close> and \<open>(q, r)\<close>. An integral hex coordinate \<open>n\<close> is passed as the
  double \<open>Finite (of_int n)\<close>.
\<close>

definition hexToWorld :: "float64 \<Rightarrow> float64 \<Rightarrow> float64 \<Rightarrow> float64 \<times> float64" where
  "hexToWorld q r hexSize =
     (fmul hexSize
        (fadd (fmul (Math_sqrt (Finite 3)) q)
              (fmul (fdiv (Math_sqrt (Finite 3)) (Finite 2)) r)),
      fmul hexSize (fmul (fdiv (Finite 3) (Finite 2)) r))"

definition worldToHex :: "float64 \<Rightarrow> float64 \<Rightarrow> float64 \<Rightarrow> float64 \<times> float64" where
  "worldToHex x z hexSize =
     (let fracQ = fdiv (fsub (fmul (fdiv (Math_sqrt (Finite 3)) (Finite 3)) x)
                             (fmul (fdiv (Finite 1) (Finite 3)) z)) hexSize;
          fracR = fdiv (fmul (fdiv (Finite 2) (Finite 3)) z) hexSize;
          fracS = fsub (fneg fracQ) fracR;
          q = Math_round fracQ;
          r = Math_round fracR;
          s = Math_round fracS;
          qDiff = Math_abs (fsub q fracQ);
          rDiff = Math_abs (fsub r fracR);
          sDiff = Math_abs (fsub s fracS)
      in if fgt qDiff rDiff \<and> fgt qDiff sDiff then (fsub (fneg r) s, r)
         else if fgt rDiff sDiff then (q, fsub (fneg q) s)
         else (q, r))"

section \<open>Chunks and the world map (chunkManagement)\<close>

datatype TileType = Grass | Building | Road | Forest | Water

text \<open>\<^verbatim>\<open>ChunkTile\<close>; the mesh instance is an opaque handle of the renderer.\<close>

record ChunkTile =
  hex :: HexCoord
  tileType :: "TileType option"
  enabled :: bool
  meshInstance :: "nat option"

record Chunk =
  grid :: "ChunkTile list"
  positionHex :: HexCoord
  positionCartesian :: "float64 \<times> float64"
  chunkEnabled :: bool
  neighbors :: "HexCoord list"
  tilesGenerated :: bool
  initialized :: bool

text \<open>The constructor \<^verbatim>\<open>new Chunk(positionHex, hexSize)\<close>.\<close>

definition newChunk :: "HexCoord \<Rightarrow> float64 \<Rightarrow> Chunk" where
  "newChunk pos hexSize =
     \<lparr>grid = [], positionHex = pos,
      positionCartesian = hexToWorld (Finite (of_int (hq pos))) (Finite (of_int (hr pos))) hexSize,
      chunkEnabled = True, neighbors = [], tilesGenerated = False, initialized = False\<rparr>"

text \<open>
  Chunk objects are shared by reference between the world map, the generation state of
  a task and the renderer, and are mutated in place. The model keeps them in a store
  \<open>chunkObjs\<close> addressed by references; \<open>nextRef\<close> is the next unused reference.
  Both maps of \<^verbatim>\<open>WorldMap\<close> are keyed by the string \<^verbatim>\<open>`${q},${r}`\<close>, which is
  injective on integer pairs: the key is the hex coordinate.
\<close>

type_synonym ChunkRef = nat

record WorldMap =
  chunks :: "HexCoord \<rightharpoonup> ChunkRef"
  spatialIndex :: "HexCoord \<rightharpoonup> HexCoord"

record World =
  chunkObjs :: "ChunkRef \<Rightarrow> Chunk"
  nextRef :: ChunkRef
  worldMap :: WorldMap

definition getChunk :: "WorldMap \<Rightarrow> HexCoord \<Rightarrow> ChunkRef option" where
  "getChunk wm pos = chunks wm pos"

definition addChunkPlaceholder :: "WorldMap \<Rightarrow> HexCoord \<Rightarrow> ChunkRef \<Rightarrow> WorldMap" where
  "addChunkPlaceholder wm pos c =
     (if chunks wm pos = None then wm\<lparr>chunks := (chunks wm)(pos \<mapsto> c)\<rparr> else wm)"

text \<open>\<^verbatim>\<open>addSpatialIndexEntry(tileKey, chunkHex)\<close> is \<^verbatim>\<open>this.spatialIndex.set(tileKey, chunkHex)\<close>.\<close>

definition addSpatialIndexEntry :: "WorldMap \<Rightarrow> HexCoord \<Rightarrow> HexCoord \<Rightarrow> WorldMap" where
  "addSpatialIndexEntry wm tileKey c = wm\<lparr>spatialIndex := (spatialIndex wm)(tileKey \<mapsto> c)\<rparr>"

text \<open>
  \<^verbatim>\<open>getChunkForTileFast(tileHex, rings)\<close>: the result and the world map after the call
  (the lookup may delete an index entry).
\<close>

definition getChunkForTileFast :: "WorldMap \<Rightarrow> HexCoord \<Rightarrow> nat \<Rightarrow> HexCoord option \<times> WorldMap" where
  "getChunkForTileFast wm tileHex rings =
     (case spatialIndex wm tileHex of
        None \<Rightarrow> (None, wm)
      | Some chunkPos \<Rightarrow>
          (case getChunk wm chunkPos of
             None \<Rightarrow> (None, wm\<lparr>spatialIndex := (spatialIndex wm)(tileHex := None)\<rparr>)
           | Some c \<Rightarrow>
               if distance (hq tileHex) (hr tileHex) (hq chunkPos) (hr chunkPos) \<le> int rings
               then (Some chunkPos, wm)
               else (None, wm)))"

section \<open>The chunk generation queue (chunkGenerationQueue)\<close>

text \<open>
  A \<^verbatim>\<open>ProcessingStep\<close> is one of the three step methods of the queue; a step
  returns the step to run next, or \<^verbatim>\<open>null\<close> when the task is done.
\<close>

datatype ProcessingStep = StepGenerateGrid | StepComputeNeighbors | StepUpdateSpatialIndex

datatype StepName = grid_step | neighbors_step | spatialIndex_step | complete_step

text \<open>
  \<^verbatim>\<open>ChunkGenerationState\<close>. Its \<^verbatim>\<open>chunk\<close> is a reference into the store; its
  \<^verbatim>\<open>worldMap\<close> is the one world map of the session, which the model passes to every
  step as part of the \<open>World\<close>.
\<close>

record ChunkGenerationState =
  chunk :: ChunkRef
  rings :: nat
  hexSize :: float64
  chunkHex :: HexCoord
  hexGrid :: "HexCoord list option"
  validatedGrid :: "ChunkTile list"
  gridBatchIndex :: nat
  spatialIndexBatchIndex :: nat
  currentStep :: StepName

definition GRID_BATCH_SIZE :: nat where
  "GRID_BATCH_SIZE = 150"

definition SPATIAL_INDEX_BATCH_SIZE :: nat where
  "SPATIAL_INDEX_BATCH_SIZE = 200"

definition createProcessingState :: "ChunkRef \<Rightarrow> nat \<Rightarrow> float64 \<Rightarrow> HexCoord \<Rightarrow> ChunkGenerationState" where
  "createProcessingState c R sz pos =
     \<lparr>chunk = c, rings = R, hexSize = sz, chunkHex = pos, hexGrid = None,
      validatedGrid = [], gridBatchIndex = 0, spatialIndexBatchIndex = 0,
      currentStep = grid_step\<rparr>"

text \<open>\<^verbatim>\<open>Array.prototype.slice(start, end)\<close> on indices that are natural numbers.\<close>

definition slice :: "'a list \<Rightarrow> nat \<Rightarrow> nat \<Rightarrow> 'a list" where
  "slice xs start stop = take (stop - start) (drop start xs)"

text \<open>The mutators \<^verbatim>\<open>setGrid\<close>, \<^verbatim>\<open>setNeighbors\<close> and \<^verbatim>\<open>markInitialized\<close> of a chunk object.\<close>

definition setGrid :: "World \<Rightarrow> ChunkRef \<Rightarrow> ChunkTile list \<Rightarrow> World" where
  "setGrid w c g = w\<lparr>chunkObjs := (chunkObjs w)(c := (chunkObjs w c)\<lparr>grid := g\<rparr>)\<rparr>"

definition setNeighbors :: "World \<Rightarrow> ChunkRef \<Rightarrow> HexCoord list \<Rightarrow> World" where
  "setNeighbors w c ns = w\<lparr>chunkObjs := (chunkObjs w)(c := (chunkObjs w c)\<lparr>neighbors := ns\<rparr>)\<rparr>"

definition markInitialized :: "World \<Rightarrow> ChunkRef \<Rightarrow> World" where
  "markInitialized w c = w\<lparr>chunkObjs := (chunkObjs w)(c := (chunkObjs w c)\<lparr>initialized := True\<rparr>)\<rparr>"

text \<open>The tile that \<^verbatim>\<open>stepGenerateGrid\<close> pushes for a hex that passes its distance check.\<close>

definition freshTile :: "HexCoord \<Rightarrow> ChunkTile" where
  "freshTile h = \<lparr>hex = h, tileType = None, enabled = True, meshInstance = None\<rparr>"

text \<open>
  Step 1, \<^verbatim>\<open>stepGenerateGrid(state)\<close>: one batch per call. The grid is generated on the
  first call; each hex of the batch within distance \<^verbatim>\<open>rings\<close> of the chunk centre is
  pushed onto \<^verbatim>\<open>validatedGrid\<close>.
\<close>

definition stepGenerateGrid ::
  "World \<Rightarrow> ChunkGenerationState \<Rightarrow> ProcessingStep option \<times> World \<times> ChunkGenerationState" where
  "stepGenerateGrid w state =
     (let g = (case hexGrid state of
                 None \<Rightarrow> generateHexGrid (rings state) (hq (chunkHex state)) (hr (chunkHex state))
               | Some g0 \<Rightarrow> g0);
          totalTiles = length g;
          batchEnd = min (gridBatchIndex state + GRID_BATCH_SIZE) totalTiles;
          batch = slice g (gridBatchIndex state) batchEnd;
          validated = validatedGrid state @
            map freshTile
              (filter (\<lambda>h. distance (hq (chunkHex state)) (hr (chunkHex state)) (hq h) (hr h)
                             \<le> int (rings state)) batch);
          state' = state\<lparr>hexGrid := Some g, validatedGrid := validated, gridBatchIndex := batchEnd\<rparr>
      in if batchEnd < totalTiles then (Some StepGenerateGrid, w, state')
         else (Some StepComputeNeighbors, setGrid w (chunk state') validated,
               state'\<lparr>currentStep := neighbors_step\<rparr>))"

text \<open>Step 2, \<^verbatim>\<open>stepComputeNeighbors(state)\<close>.\<close>

definition stepComputeNeighbors ::
  "World \<Rightarrow> ChunkGenerationState \<Rightarrow> ProcessingStep option \<times> World \<times> ChunkGenerationState" where
  "stepComputeNeighbors w state =
     (let ns = calculateChunkNeighbors (positionHex (chunkObjs w (chunk state))) (rings state);
          w' = markInitialized (setNeighbors w (chunk state) ns) (chunk state)
      in (Some StepUpdateSpatialIndex, w', state\<lparr>currentStep := spatialIndex_step\<rparr>))"

text \<open>
  Step 3, \<^verbatim>\<open>stepUpdateSpatialIndex(state)\<close>: one batch per call; every tile of the batch
  is published with \<^verbatim>\<open>addSpatialIndexEntry\<close>.
\<close>

definition stepUpdateSpatialIndex ::
  "World \<Rightarrow> ChunkGenerationState \<Rightarrow> ProcessingStep option \<times> World \<times> ChunkGenerationState" where
  "stepUpdateSpatialIndex w state =
     (let chunkGrid = grid (chunkObjs w (chunk state));
          totalTiles = length chunkGrid;
          batchEnd = min (spatialIndexBatchIndex state + SPATIAL_INDEX_BATCH_SIZE) totalTiles;
          batch = slice chunkGrid (spatialIndexBatchIndex state) batchEnd;
          wm' = fold (\<lambda>tile wm. addSpatialIndexEntry wm (hex tile) (chunkHex state)) batch (worldMap w);
          w' = w\<lparr>worldMap := wm'\<rparr>;
          state' = state\<lparr>spatialIndexBatchIndex := batchEnd\<rparr>
      in if batchEnd < totalTiles then (Some StepUpdateSpatialIndex, w', state')
         else (None, w', state'\<lparr>currentStep := complete_step\<rparr>))"

definition applyStep ::
  "ProcessingStep \<Rightarrow> World \<Rightarrow> ChunkGenerationState \<Rightarrow> ProcessingStep option \<times> World \<times> ChunkGenerationState" where
  "applyStep step w state =
     (case step of
        StepGenerateGrid \<Rightarrow> stepGenerateGrid w state
      | StepComputeNeighbors \<Rightarrow> stepComputeNeighbors w state
      | StepUpdateSpatialIndex \<Rightarrow> stepUpdateSpatialIndex w state)"

text \<open>
  The number of tiles a step still has to process, and the rank of a step in the
  pipeline; together they bound the loop below.
\<close>

definition batchesLeft :: "ProcessingStep \<Rightarrow> World \<Rightarrow> ChunkGenerationState \<Rightarrow> nat" where
  "batchesLeft step w state =
     (case step of
        StepGenerateGrid \<Rightarrow>
          length (case hexGrid state of
                    None \<Rightarrow> generateHexGrid (rings state) (hq (chunkHex state)) (hr (chunkHex state))
                  | Some g0 \<Rightarrow> g0) - gridBatchIndex state
      | StepComputeNeighbors \<Rightarrow> 0
      | StepUpdateSpatialIndex \<Rightarrow>
          length (grid (chunkObjs w (chunk state))) - spatialIndexBatchIndex state)"

definition stepRank :: "ProcessingStep \<Rightarrow> nat" where
  "stepRank step =
     (case step of StepGenerateGrid \<Rightarrow> 2 | StepComputeNeighbors \<Rightarrow> 1 | StepUpdateSpatialIndex \<Rightarrow> 0)"

text \<open>
  The loop \<^verbatim>\<open>while (currentStep !== null)\<close> of \<^verbatim>\<open>processNext\<close>, run on one task until
  its last step returns \<^verbatim>\<open>null\<close>. The frame budget only decides after which step a
  call of \<^verbatim>\<open>processNext\<close> returns; the next call resumes at the saved step, so the
  steps executed for a task are these, in this order, whatever the budget.
\<close>

function runSteps :: "ProcessingStep \<Rightarrow> World \<Rightarrow> ChunkGenerationState \<Rightarrow> World \<times> ChunkGenerationState" where
  "runSteps step w state =
     (case applyStep step w state of
        (None, w', state') \<Rightarrow> (w', state')
      | (Some step', w', state') \<Rightarrow> runSteps step' w' state')"
  by pat_completeness auto
termination
proof (relation "measures [\<lambda>(step, w, state). stepRank step, \<lambda>(step, w, state). batchesLeft step w state]")
  show "wf (measures [\<lambda>(step, w, state). stepRank step, \<lambda>(step, w, state). batchesLeft step w state])"
    by simp
next
  fix step w state x1 x2 step' w' state'
  assume "(x1, x2) = applyStep step w state" "x1 = Some step'" "(w', state') = x2"
  then have "applyStep step w state = (Some step', w', state')"
    by simp
  then have "stepRank step' < stepRank step \<or>
         (stepRank step' = stepRank step \<and> batchesLeft step' w' state' < batchesLeft step w state)"
  proof (cases step)
    case StepGenerateGrid
    with \<open>applyStep step w state = (Some step', w', state')\<close> show ?thesis
      by (auto simp: applyStep_def stepGenerateGrid_def Let_def stepRank_def batchesLeft_def
          GRID_BATCH_SIZE_def split: if_splits option.splits)
  next
    case StepComputeNeighbors
    with \<open>applyStep step w state = (Some step', w', state')\<close> show ?thesis
      by (auto simp: applyStep_def stepComputeNeighbors_def Let_def stepRank_def)
  next
    case StepUpdateSpatialIndex
    with \<open>applyStep step w state = (Some step', w', state')\<close> show ?thesis
      by (auto simp: applyStep_def stepUpdateSpatialIndex_def Let_def stepRank_def batchesLeft_def
          SPATIAL_INDEX_BATCH_SIZE_def split: if_splits)
  qed
  then show "((step', w', state'), (step, w, state))
        \<in> measures [\<lambda>(step, w, state). stepRank step, \<lambda>(step, w, state). batchesLeft step w state]"
    by auto
qed

text \<open>
  \<^verbatim>\<open>ChunkGenerationTask\<close>. A promise created by \<^verbatim>\<open>new Promise\<close> is identified by a
  number (its \<^verbatim>\<open>resolve\<close> and \<^verbatim>\<open>reject\<close> functions belong to it);
  \<^verbatim>\<open>Promise.resolve(chunk)\<close> is a promise that is already resolved with that chunk.
\<close>

datatype ChunkGenerationStatus = pending | generating | completed | failed

datatype ChunkPromise = TaskPromise nat | ResolvedPromise ChunkRef

record ChunkGenerationTask =
  taskChunkHex :: HexCoord
  taskRings :: nat
  taskHexSize :: float64
  priority :: int
  status :: ChunkGenerationStatus
  promise :: ChunkPromise
  processingState :: "ChunkGenerationState option"
  taskStep :: "ProcessingStep option"

record ChunkGenerationQueue =
  tasks :: "HexCoord \<rightharpoonup> ChunkGenerationTask"
  frameBudget :: real
  nextPromise :: nat

text \<open>
  \<^verbatim>\<open>enqueue(chunkHex, rings, hexSize, priority, worldMap)\<close>: the returned promise, the
  queue and the world after the call. The placeholder is allocated and added to the
  world map first, the task is created and registered after it.
\<close>

definition enqueue ::
  "ChunkGenerationQueue \<Rightarrow> World \<Rightarrow> HexCoord \<Rightarrow> nat \<Rightarrow> float64 \<Rightarrow> int
     \<Rightarrow> ChunkPromise \<times> ChunkGenerationQueue \<times> World" where
  "enqueue queue w pos R sz prio =
     (case tasks queue pos of
        Some existing \<Rightarrow>
          (promise existing,
           (if prio > priority existing
            then queue\<lparr>tasks := (tasks queue)(pos \<mapsto> existing\<lparr>priority := prio\<rparr>)\<rparr>
            else queue),
           w)
      | None \<Rightarrow>
          (let existingChunk = getChunk (worldMap w) pos;
               earlyReturn =
                 (case existingChunk of
                    None \<Rightarrow> None
                  | Some c \<Rightarrow>
                      if \<not> initialized (chunkObjs w c)
                      then (case tasks queue pos of
                              Some existingTask \<Rightarrow> Some (promise existingTask)
                            | None \<Rightarrow> None)
                      else Some (ResolvedPromise c))
           in case earlyReturn of
                Some p \<Rightarrow> (p, queue, w)
              | None \<Rightarrow>
                  (let w' = (if existingChunk = None
                             then w\<lparr>chunkObjs := (chunkObjs w)(nextRef w := newChunk pos sz),
                                    nextRef := Suc (nextRef w),
                                    worldMap := addChunkPlaceholder (worldMap w) pos (nextRef w)\<rparr>
                             else w);
                       taskPromise = TaskPromise (nextPromise queue);
                       task = \<lparr>taskChunkHex = pos, taskRings = R, taskHexSize = sz,
                               priority = prio, status = pending, promise = taskPromise,
                               processingState = None, taskStep = None\<rparr>
                   in (taskPromise,
                       queue\<lparr>tasks := (tasks queue)(pos \<mapsto> task),
                             nextPromise := Suc (nextPromise queue)\<rparr>,
                       w'))))"

text \<open>
  The start of a pending task in \<^verbatim>\<open>processNext\<close> followed by all its steps: the chunk
  is looked up in the world map; without a placeholder the task fails (the source
  throws \<^verbatim>\<open>Chunk placeholder not found\<close>) and the world stays as it is.
\<close>

definition processTask :: "World \<Rightarrow> ChunkGenerationTask \<Rightarrow> World" where
  "processTask w task =
     (case getChunk (worldMap w) (taskChunkHex task) of
        None \<Rightarrow> w
      | Some existingChunk \<Rightarrow>
          fst (runSteps StepGenerateGrid w
                 (createProcessingState existingChunk (taskRings task) (taskHexSize task)
                    (taskChunkHex task))))"

section \<open>Caching tile types in chunks (CanvasManager.renderGridAsync)\<close>

text \<open>\<^verbatim>\<open>tileTypeFromNumber(tileNum)\<close>; the number comes from the layout module.\<close>

definition tileTypeFromNumber :: "int \<Rightarrow> TileType option" where
  "tileTypeFromNumber tileNum =
     (if tileNum = 0 then Some Grass
      else if tileNum = 1 then Some Building
      else if tileNum = 2 then Some Road
      else if tileNum = 3 then Some Forest
      else if tileNum = 4 then Some Water
      else None)"

text \<open>
  \<^verbatim>\<open>Chunk.setTileType(hex, tileType)\<close>: \<^verbatim>\<open>this.grid.find\<close> returns the first tile at
  that hex, whose type is then written; nothing happens when there is none.
\<close>

fun setTileTypeIn :: "ChunkTile list \<Rightarrow> HexCoord \<Rightarrow> TileType option \<Rightarrow> ChunkTile list" where
  "setTileTypeIn [] h k = []"
| "setTileTypeIn (t # ts) h k =
     (if hq (hex t) = hq h \<and> hr (hex t) = hr h then t\<lparr>tileType := k\<rparr> # ts
      else t # setTileTypeIn ts h k)"

definition setTileType :: "Chunk \<Rightarrow> HexCoord \<Rightarrow> TileType option \<Rightarrow> Chunk" where
  "setTileType c h k = c\<lparr>grid := setTileTypeIn (grid c) h k\<rparr>"

definition setTilesGenerated :: "Chunk \<Rightarrow> bool \<Rightarrow> Chunk" where
  "setTilesGenerated c generated = c\<lparr>tilesGenerated := generated\<rparr>"

definition hasAllTilesGenerated :: "Chunk \<Rightarrow> bool" where
  "hasAllTilesGenerated c = list_all (\<lambda>tile. tileType tile \<noteq> None) (grid c)"

text \<open>
  The body of the loop \<^verbatim>\<open>for (const chunk of chunksToUpdate)\<close>: every tile of the chunk
  is looked up in the layout module (\<^verbatim>\<open>get_tile_at\<close>, a parameter here); when the number
  names a tile type it is cached in the chunk; then the chunk is marked as generated.
  The loop runs over the hexes of the grid, which \<^verbatim>\<open>setTileType\<close> does not change.
\<close>

definition cacheTileTypes :: "(int \<Rightarrow> int \<Rightarrow> int) \<Rightarrow> Chunk \<Rightarrow> Chunk" where
  "cacheTileTypes get_tile_at c =
     setTilesGenerated
       (fold (\<lambda>h c'. case tileTypeFromNumber (get_tile_at (hq h) (hr h)) of
                        None \<Rightarrow> c'
                      | Some k \<Rightarrow> setTileType c' h (Some k))
          (map hex (grid c)) c)
       True"

text \<open>
  The part of \<^verbatim>\<open>renderGridAsync\<close> that decides which chunks are regenerated and caches
  their tile types, on the list of enabled chunks. With \<^verbatim>\<open>forceRecompute\<close> every
  enabled chunk is first marked as not generated. A chunk needs generation unless
  \<^verbatim>\<open>getTilesGenerated() && hasAllTilesGenerated()\<close>. When no chunk needs generation
  nothing is cached; otherwise the chunks to update are all enabled chunks under
  \<^verbatim>\<open>forceRecompute\<close> and the chunks needing generation without it. The layout
  computed in between is the parameter \<^verbatim>\<open>get_tile_at\<close>.
\<close>

definition updateChunk :: "(Chunk \<Rightarrow> Chunk) \<Rightarrow> ChunkRef \<Rightarrow> World \<Rightarrow> World" where
  "updateChunk f c w = w\<lparr>chunkObjs := (chunkObjs w)(c := f (chunkObjs w c))\<rparr>"

definition cacheGeneratedTiles :: "(int \<Rightarrow> int \<Rightarrow> int) \<Rightarrow> bool \<Rightarrow> ChunkRef list \<Rightarrow> World \<Rightarrow> World" where
  "cacheGeneratedTiles get_tile_at forceRecompute enabledChunks w =
     (let w1 = (if forceRecompute
                then fold (updateChunk (\<lambda>c. setTilesGenerated c False)) enabledChunks w
                else w);
          chunksNeedingGeneration =
            filter (\<lambda>c. \<not> (tilesGenerated (chunkObjs w1 c) \<and> hasAllTilesGenerated (chunkObjs w1 c)))
              enabledChunks;
          chunksToUpdate = (if forceRecompute then enabledChunks else chunksNeedingGeneration)
      in if chunksNeedingGeneration \<noteq> []
         then fold (updateChunk (cacheTileTypes get_tile_at)) chunksToUpdate w1
         else w1)"

section \<open>Floating origin (CanvasManager.updateFloatingOrigin, Player.getCurrentTileHex)\<close>

text \<open>
  \<^verbatim>\<open>Vector3\<close> of the rendering library, with \<^verbatim>\<open>subtract\<close> (component by component)
  and \<^verbatim>\<open>Vector3.Distance\<close> (the square root of \<^verbatim>\<open>x * x + y * y + z * z\<close> of the
  difference).
\<close>

datatype Vector3 = Vector3 (vx: float64) (vy: float64) (vz: float64)

definition v3_subtract :: "Vector3 \<Rightarrow> Vector3 \<Rightarrow> Vector3" where
  "v3_subtract a b = Vector3 (fsub (vx a) (vx b)) (fsub (vy a) (vy b)) (fsub (vz a) (vz b))"

definition v3_distance :: "Vector3 \<Rightarrow> Vector3 \<Rightarrow> float64" where
  "v3_distance a b =
     (let x = fsub (vx a) (vx b);
          y = fsub (vy a) (vy b);
          z = fsub (vz a) (vz b)
      in Math_sqrt (fadd (fadd (fmul x x) (fmul y y)) (fmul z z)))"

text \<open>\<^verbatim>\<open>TILE_CONFIG.hexSize\<close> is \<^verbatim>\<open>modelDepth / 3.0\<close> with \<^verbatim>\<open>modelDepth: 20.0\<close>.\<close>

definition TILE_CONFIG_hexSize :: float64 where
  "TILE_CONFIG_hexSize = fdiv (Finite 20) (Finite 3)"

text \<open>
  The state that \<^verbatim>\<open>updateFloatingOrigin\<close> reads and writes: the position of the
  avatar mesh (a root mesh of the scene, so its absolute position is its position),
  the positions of the other meshes and of the positional lights of the scene, the
  current floating origin and the accumulated hex offset \<^verbatim>\<open>{ q, r }\<close>, a pair of
  numbers. The threshold is the field \<^verbatim>\<open>floatingOriginThreshold\<close>.
\<close>

record OriginState =
  avatarPosition :: Vector3
  meshPositions :: "Vector3 list"
  lightPositions :: "Vector3 list"
  floatingOriginThreshold :: float64
  currentFloatingOrigin :: Vector3
  worldHexOffset :: "float64 \<times> float64"

definition updateFloatingOrigin :: "OriginState \<Rightarrow> OriginState" where
  "updateFloatingOrigin st =
     (let avatarPos = avatarPosition st;
          distanceFromOrigin = v3_distance avatarPos (currentFloatingOrigin st)
      in if fgt distanceFromOrigin (floatingOriginThreshold st)
         then (let offset = v3_subtract avatarPos (currentFloatingOrigin st);
                   hexOffset = worldToHex (vx offset) (vz offset) TILE_CONFIG_hexSize
               in st\<lparr>worldHexOffset := (fadd (fst (worldHexOffset st)) (fst hexOffset),
                                         fadd (snd (worldHexOffset st)) (snd hexOffset)),
                      avatarPosition := v3_subtract avatarPos offset,
                      meshPositions := map (\<lambda>p. v3_subtract p offset) (meshPositions st),
                      lightPositions := map (\<lambda>p. v3_subtract p offset) (lightPositions st),
                      currentFloatingOrigin := avatarPos\<rparr>)
         else st)"

text \<open>
  \<^verbatim>\<open>Player.getCurrentTileHex(hexSize, worldHexOffset)\<close> on the local position of the
  avatar mesh, with the offset that the caller reads from \<^verbatim>\<open>getWorldHexOffset()\<close>.
\<close>

definition getCurrentTileHex :: "Vector3 \<Rightarrow> float64 \<Rightarrow> float64 \<times> float64 \<Rightarrow> float64 \<times> float64" where
  "getCurrentTileHex localPos sz off =
     (let localHex = worldToHex (fneg (vx localPos)) (vz localPos) sz
      in (fadd (fst localHex) (fst off), fadd (snd localHex) (snd off)))"

text \<open>The true world hex of the avatar as the frame loop computes it from a state.\<close>

definition trueWorldHex :: "OriginState \<Rightarrow> float64 \<times> float64" where
  "trueWorldHex st = getCurrentTileHex (avatarPosition st) TILE_CONFIG_hexSize (worldHexOffset st)"

section \<open>Layout constraints from model output (parseLayoutConstraints)\<close>

text \<open>
  \<^verbatim>\<open>LayoutConstraints\<close>. The three string-valued fields range over three literals
  each. \<^verbatim>\<open>grassRatio\<close> is a JavaScript number, which can be \<^verbatim>\<open>NaN\<close>: a number is
  modelled as a real or \<open>NaN\<close>.
\<close>

datatype BuildingDensity = DensitySparse | DensityMedium | DensityDense

datatype Clustering = Clustered | Distributed | Random

datatype BuildingSizeHint = SizeSmall | SizeMedium | SizeLarge

datatype jsnumber = Num real | NaN

record LayoutConstraints =
  buildingDensity :: BuildingDensity
  clustering :: Clustering
  grassRatio :: jsnumber
  buildingSizeHint :: BuildingSizeHint

text \<open>The comparisons of a captured string with the literals of a field.\<close>

definition densityOf :: "string \<Rightarrow> BuildingDensity option" where
  "densityOf v =
     (if v = ''sparse'' then Some DensitySparse
      else if v = ''medium'' then Some DensityMedium
      else if v = ''dense'' then Some DensityDense
      else None)"

definition clusteringOf :: "string \<Rightarrow> Clustering option" where
  "clusteringOf v =
     (if v = ''clustered'' then Some Clustered
      else if v = ''distributed'' then Some Distributed
      else if v = ''random'' then Some Random
      else None)"

definition sizeOf :: "string \<Rightarrow> BuildingSizeHint option" where
  "sizeOf v =
     (if v = ''small'' then Some SizeSmall
      else if v = ''medium'' then Some SizeMedium
      else if v = ''large'' then Some SizeLarge
      else None)"

text \<open>\<^verbatim>\<open>Math.min\<close> and \<^verbatim>\<open>Math.max\<close> return \<^verbatim>\<open>NaN\<close> when an argument is \<^verbatim>\<open>NaN\<close>.\<close>

definition Math_min :: "jsnumber \<Rightarrow> jsnumber \<Rightarrow> jsnumber" where
  "Math_min a b = (case (a, b) of (Num x, Num y) \<Rightarrow> Num (min x y) | _ \<Rightarrow> NaN)"

definition Math_max :: "jsnumber \<Rightarrow> jsnumber \<Rightarrow> jsnumber" where
  "Math_max a b = (case (a, b) of (Num x, Num y) \<Rightarrow> Num (max x y) | _ \<Rightarrow> NaN)"

text \<open>
  Strings are sequences of code units below 256. The character classes of the regular
  expressions: \<^verbatim>\<open>["\s:]\<close> (the white space of \<^verbatim>\<open>\s\<close> in that range is tab, line
  feed, vertical tab, form feed, carriage return, space and no-break space),
  \<^verbatim>\<open>\d\<close> and \<^verbatim>\<open>[\d.]\<close>. Under the flag \<^verbatim>\<open>i\<close> a letter of the pattern matches
  its upper-case and its lower-case form.
\<close>

definition isSeparator :: "char \<Rightarrow> bool" where
  "isSeparator c \<longleftrightarrow>
     c \<in> set [CHR 0x22, CHR '':'', CHR 0x09, CHR 0x0A, CHR 0x0B, CHR 0x0C, CHR 0x0D,
               CHR '' '', CHR 0xA0]"

definition isDigit :: "char \<Rightarrow> bool" where
  "isDigit c \<longleftrightarrow> c \<in> set ''0123456789''"

definition isDigitOrDot :: "char \<Rightarrow> bool" where
  "isDigitOrDot c \<longleftrightarrow> isDigit c \<or> c = CHR ''.''"

definition toLowerChar :: "char \<Rightarrow> char" where
  "toLowerChar c =
     (case map_of (zip ''ABCDEFGHIJKLMNOPQRSTUVWXYZ'' ''abcdefghijklmnopqrstuvwxyz'') c of
        Some l \<Rightarrow> l
      | None \<Rightarrow> c)"

text \<open>
  Matching a literal of the pattern at the start of the input, ignoring case: the
  matched text (in the case of the input) and the rest of the input.
\<close>

definition matchLiteral :: "string \<Rightarrow> string \<Rightarrow> (string \<times> string) option" where
  "matchLiteral lit input =
     (if length lit \<le> length input \<and>
         map toLowerChar (take (length lit) input) = map toLowerChar lit
      then Some (take (length lit) input, drop (length lit) input)
      else None)"

text \<open>The group \<^verbatim>\<open>(a|b|c)\<close>: the first alternative that matches is captured.\<close>

fun matchAlternatives :: "string list \<Rightarrow> string \<Rightarrow> string option" where
  "matchAlternatives [] input = None"
| "matchAlternatives (a # alts) input =
     (case matchLiteral a input of
        Some (captured, rest) \<Rightarrow> Some captured
      | None \<Rightarrow> matchAlternatives alts input)"

text \<open>
  \<^verbatim>\<open>/key["\s:]+(a|b|c)/i\<close> tried at the start of the input. No alternative starts
  with a character of \<^verbatim>\<open>["\s:]\<close>, so a match takes the whole run of separators.
\<close>

definition matchWordFieldAt :: "string \<Rightarrow> string list \<Rightarrow> string \<Rightarrow> string option" where
  "matchWordFieldAt key alts input =
     (case matchLiteral key input of
        None \<Rightarrow> None
      | Some (matched, rest) \<Rightarrow>
          if takeWhile isSeparator rest = [] then None
          else matchAlternatives alts (dropWhile isSeparator rest))"

text \<open>\<^verbatim>\<open>/key["\s:]+([\d.]+)/i\<close> tried at the start of the input; the group is greedy.\<close>

definition matchNumberFieldAt :: "string \<Rightarrow> string \<Rightarrow> string option" where
  "matchNumberFieldAt key input =
     (case matchLiteral key input of
        None \<Rightarrow> None
      | Some (matched, rest) \<Rightarrow>
          if takeWhile isSeparator rest = [] then None
          else (let captured = takeWhile isDigitOrDot (dropWhile isSeparator rest)
                in if captured = [] then None else Some captured))"

text \<open>\<^verbatim>\<open>String.prototype.match\<close> without the flag \<^verbatim>\<open>g\<close>: the leftmost match.\<close>

fun searchFirst :: "(string \<Rightarrow> string option) \<Rightarrow> string \<Rightarrow> string option" where
  "searchFirst matchAt [] = matchAt []"
| "searchFirst matchAt (c # rest) =
     (case matchAt (c # rest) of
        Some captured \<Rightarrow> Some captured
      | None \<Rightarrow> searchFirst matchAt rest)"

text \<open>
  \<^verbatim>\<open>parseFloat\<close> on a string of digits and dots: the value of the longest prefix that
  is a decimal literal (\<^verbatim>\<open>12\<close>, \<^verbatim>\<open>12.\<close>, \<^verbatim>\<open>12.5\<close>, \<^verbatim>\<open>.5\<close>), and \<^verbatim>\<open>NaN\<close> when
  there is none.
\<close>

definition digitsValue :: "string \<Rightarrow> nat" where
  "digitsValue ds = fold (\<lambda>d n. 10 * n + (of_char d - 48)) ds 0"

definition parseFloatDigits :: "string \<Rightarrow> jsnumber" where
  "parseFloatDigits str =
     (let intPart = takeWhile isDigit str
      in case dropWhile isDigit str of
           [] \<Rightarrow> if intPart = [] then NaN else Num (real (digitsValue intPart))
         | c # rest \<Rightarrow>
             (let fracPart = takeWhile isDigit rest
              in if c \<noteq> CHR ''.'' then
                   (if intPart = [] then NaN else Num (real (digitsValue intPart)))
                 else if intPart = [] \<and> fracPart = [] then NaN
                 else Num (real (digitsValue intPart)
                           + real (digitsValue fracPart) / 10 ^ length fracPart)))"

text \<open>
  \<^verbatim>\<open>output.match(/\{[\s\S]*\}/)\<close>: from the first \<^verbatim>\<open>{\<close> to the last \<^verbatim>\<open>}\<close> after it.
\<close>

definition jsonMatch :: "string \<Rightarrow> string option" where
  "jsonMatch output =
     (let fromBrace = dropWhile (\<lambda>c. c \<noteq> CHR ''{'') output;
          toBrace = rev (dropWhile (\<lambda>c. c \<noteq> CHR ''}'') (rev fromBrace))
      in if fromBrace = [] \<or> toBrace = [] then None else Some toBrace)"

text \<open>
  The values of \<^verbatim>\<open>JSON.parse\<close>. \<^verbatim>\<open>JSON.parse\<close> itself is a parameter of the model
  (\<open>None\<close> when it throws); an object is the list of its entries.
\<close>

datatype json =
  JObject "(string \<times> json) list"
| JArray "json list"
| JString string
| JNumber real
| JBool bool
| JNull

definition stringEntry :: "(string \<times> json) list \<Rightarrow> string \<Rightarrow> string option" where
  "stringEntry entries key =
     (case find (\<lambda>e. fst e = key) entries of
        Some (k, JString v) \<Rightarrow> Some v
      | _ \<Rightarrow> None)"

definition numberEntry :: "(string \<times> json) list \<Rightarrow> string \<Rightarrow> real option" where
  "numberEntry entries key =
     (case find (\<lambda>e. fst e = key) entries of
        Some (k, JNumber v) \<Rightarrow> Some v
      | _ \<Rightarrow> None)"

text \<open>
  The first attempt of \<^verbatim>\<open>parseLayoutConstraints\<close>: the result it returns, or \<open>None\<close>
  when it falls through to the regular expressions (no match, \<^verbatim>\<open>JSON.parse\<close> throws,
  the value is not an object, or a field is missing or not valid).
\<close>

definition parseJsonConstraints :: "(string \<Rightarrow> json option) \<Rightarrow> string \<Rightarrow> LayoutConstraints option" where
  "parseJsonConstraints JSON_parse output =
     (case jsonMatch output of
        None \<Rightarrow> None
      | Some matched \<Rightarrow>
          (case JSON_parse matched of
             Some (JObject entries) \<Rightarrow>
               (case (stringEntry entries ''buildingDensity'', stringEntry entries ''clustering'',
                      numberEntry entries ''grassRatio'', stringEntry entries ''buildingSizeHint'') of
                  (Some density, Some clust, Some ratio, Some sz) \<Rightarrow>
                    (case (densityOf density, clusteringOf clust, sizeOf sz) of
                       (Some d, Some c, Some z) \<Rightarrow>
                         if ratio \<ge> 0 \<and> ratio \<le> 1
                         then Some \<lparr>buildingDensity = d, clustering = c,
                                    grassRatio = Num ratio, buildingSizeHint = z\<rparr>
                         else None
                     | _ \<Rightarrow> None)
                | _ \<Rightarrow> None)
           | _ \<Rightarrow> None))"

text \<open>\<^verbatim>\<open>parseLayoutConstraints(output)\<close>.\<close>

definition parseLayoutConstraints :: "(string \<Rightarrow> json option) \<Rightarrow> string \<Rightarrow> LayoutConstraints" where
  "parseLayoutConstraints JSON_parse output =
     (case parseJsonConstraints JSON_parse output of
        Some constraints \<Rightarrow> constraints
      | None \<Rightarrow>
          (let densityMatch = searchFirst
                 (matchWordFieldAt ''buildingDensity'' [''sparse'', ''medium'', ''dense'']) output;
               clusteringMatch = searchFirst
                 (matchWordFieldAt ''clustering'' [''clustered'', ''distributed'', ''random'']) output;
               grassRatioMatch = searchFirst (matchNumberFieldAt ''grassRatio'') output;
               sizeMatch = searchFirst
                 (matchWordFieldAt ''buildingSizeHint'' [''small'', ''medium'', ''large'']) output;
               density = (case Option.bind densityMatch densityOf of
                            Some d \<Rightarrow> d | None \<Rightarrow> DensityMedium);
               clust = (case Option.bind clusteringMatch clusteringOf of
                          Some c \<Rightarrow> c | None \<Rightarrow> Random);
               ratio = (case grassRatioMatch of
                          Some captured \<Rightarrow> parseFloatDigits captured
                        | None \<Rightarrow> Num 0.3);
               sz = (case Option.bind sizeMatch sizeOf of
                       Some z \<Rightarrow> z | None \<Rightarrow> SizeMedium)
           in \<lparr>buildingDensity = density, clustering = clust,
               grassRatio = Math_max (Num 0) (Math_min (Num 1) ratio),
               buildingSizeHint = sz\<rparr>))"

section \<open>Scenarios\<close>

text \<open>A world without chunks and an idle queue, as they are after construction.\<close>

definition emptyWorld :: World where
  "emptyWorld =
     \<lparr>chunkObjs = (\<lambda>c. newChunk (HexCoord 0 0) TILE_CONFIG_hexSize), nextRef = 0,
      worldMap = \<lparr>chunks = Map.empty, spatialIndex = Map.empty\<rparr>\<rparr>"

definition emptyQueue :: ChunkGenerationQueue where
  "emptyQueue = \<lparr>tasks = Map.empty, frameBudget = 5, nextPromise = 0\<rparr>"

text \<open>A chunk is requested on the idle queue and its task is processed to the end.\<close>

definition requestChunk :: "World \<Rightarrow> HexCoord \<Rightarrow> nat \<Rightarrow> World" where
  "requestChunk w pos R =
     (case enqueue emptyQueue w pos R TILE_CONFIG_hexSize 100 of
        (p, queue, w') \<Rightarrow>
          (case tasks queue pos of
             None \<Rightarrow> w'
           | Some task \<Rightarrow> processTask w' task))"

text \<open>
  A world whose chunk object 0 has the single tile \<open>(1, 0)\<close>, which the spatial index
  already maps to the chunk at \<open>(0, 0)\<close>.
\<close>

definition overlapWorld :: World where
  "overlapWorld =
     \<lparr>chunkObjs = (\<lambda>c. (newChunk (HexCoord 1 0) TILE_CONFIG_hexSize)
                            \<lparr>grid := [\<lparr>hex = HexCoord 1 0, tileType = None, enabled = True,
                                       meshInstance = None\<rparr>]\<rparr>),
      nextRef = 1,
      worldMap = \<lparr>chunks = [HexCoord 1 0 \<mapsto> 0],
                  spatialIndex = [HexCoord 1 0 \<mapsto> HexCoord 0 0]\<rparr>\<rparr>"

text \<open>
  A world map whose index maps the tile \<open>(5, 5)\<close> to the present chunk at \<open>(0, 0)\<close>.
\<close>

definition staleMap :: WorldMap where
  "staleMap = \<lparr>chunks = [HexCoord 0 0 \<mapsto> 0], spatialIndex = [HexCoord 5 5 \<mapsto> HexCoord 0 0]\<rparr>"

text \<open>A queue that holds a task of priority 10 for the chunk at \<open>(0, 0)\<close>.\<close>

definition queuedTask :: ChunkGenerationTask where
  "queuedTask =
     \<lparr>taskChunkHex = HexCoord 0 0, taskRings = 1, taskHexSize = TILE_CONFIG_hexSize,
      priority = 10, status = pending, promise = TaskPromise 0,
      processingState = None, taskStep = None\<rparr>"

definition busyQueue :: ChunkGenerationQueue where
  "busyQueue = \<lparr>tasks = [HexCoord 0 0 \<mapsto> queuedTask], frameBudget = 5, nextPromise = 1\<rparr>"

text \<open>A world whose chunk at \<open>(0, 0)\<close> is initialized.\<close>

definition readyWorld :: World where
  "readyWorld =
     \<lparr>chunkObjs = (\<lambda>c. (newChunk (HexCoord 0 0) TILE_CONFIG_hexSize)\<lparr>initialized := True\<rparr>),
      nextRef = 1,
      worldMap = \<lparr>chunks = [HexCoord 0 0 \<mapsto> 0], spatialIndex = Map.empty\<rparr>\<rparr>"

text \<open>
  A chunk with one tile that has no type yet, and a layout that has no tile anywhere
  (\<^verbatim>\<open>get_tile_at\<close> returns \<open>-1\<close>).
\<close>

definition oneTileChunk :: Chunk where
  "oneTileChunk =
     (newChunk (HexCoord 0 0) TILE_CONFIG_hexSize)
       \<lparr>grid := [\<lparr>hex = HexCoord 0 0, tileType = None, enabled = True, meshInstance = None\<rparr>]\<rparr>"

definition noTileAt :: "int \<Rightarrow> int \<Rightarrow> int" where
  "noTileAt q r = - 1"

text \<open>
  The avatar has walked to \<open>(1500, 0, 0)\<close> while the floating origin is still at the
  start, with the default threshold 1000.
\<close>

definition walkedState :: OriginState where
  "walkedState =
     \<lparr>avatarPosition = Vector3 (Finite 1500) (Finite 0) (Finite 0), meshPositions = [],
      lightPositions = [], floatingOriginThreshold = Finite 1000,
      currentFloatingOrigin = Vector3 (Finite 0) (Finite 0) (Finite 0),
      worldHexOffset = (Finite 0, Finite 0)\<rparr>"

section \<open>Auxiliary definitions for the proofs\<close>

text \<open>
  The offsets of the hexes of ring \<open>k\<close> from its centre, side by side in the order of
  the walk, and the hex at an offset.
\<close>

definition ringOffsets :: "nat \<Rightarrow> (int \<times> int) list" where
  "ringOffsets k =
     map (\<lambda>j. (- int k + int j, int k)) [0..<k] @
     map (\<lambda>j. (int j, int k - int j)) [0..<k] @
     map (\<lambda>j. (int k, - int j)) [0..<k] @
     map (\<lambda>j. (int k - int j, - int k)) [0..<k] @
     map (\<lambda>j. (- int j, - int k + int j)) [0..<k] @
     map (\<lambda>j. (- int k, int j)) [0..<k]"

definition cubeAt :: "CubeCoord \<Rightarrow> int \<times> int \<Rightarrow> CubeCoord" where
  "cubeAt c p = CubeCoord (cq c + fst p) (cr c + snd p) (cs c - fst p - snd p)"

text \<open>Twice the hex distance between two cube coordinates, from their \<open>q\<close> and \<open>r\<close>.\<close>

definition offNorm :: "CubeCoord \<Rightarrow> CubeCoord \<Rightarrow> int" where
  "offNorm c x = \<bar>cq x - cq c\<bar> + \<bar>(cq x - cq c) + (cr x - cr c)\<bar> + \<bar>cr x - cr c\<bar>"

text \<open>
  The grid a generation state works on, its distance check, and the validated grid
  and the state at the end of the grid phase.
\<close>

definition gridOf :: "ChunkGenerationState \<Rightarrow> HexCoord list" where
  "gridOf state =
     (case hexGrid state of
        None \<Rightarrow> generateHexGrid (rings state) (hq (chunkHex state)) (hr (chunkHex state))
      | Some g0 \<Rightarrow> g0)"

definition inChunkRange :: "ChunkGenerationState \<Rightarrow> HexCoord \<Rightarrow> bool" where
  "inChunkRange state h \<longleftrightarrow>
     distance (hq (chunkHex state)) (hr (chunkHex state)) (hq h) (hr h) \<le> int (rings state)"

definition gridPhaseResult :: "ChunkGenerationState \<Rightarrow> ChunkTile list" where
  "gridPhaseResult state =
     validatedGrid state @
       map freshTile (filter (inChunkRange state) (drop (gridBatchIndex state) (gridOf state)))"

definition afterGridPhase :: "ChunkGenerationState \<Rightarrow> ChunkGenerationState" where
  "afterGridPhase state =
     state\<lparr>hexGrid := Some (gridOf state), validatedGrid := gridPhaseResult state,
           gridBatchIndex := length (gridOf state), currentStep := neighbors_step\<rparr>"

text \<open>Publishing a list of tiles for a chunk, and the result of the index phase.\<close>

definition publishTiles :: "HexCoord \<Rightarrow> ChunkTile list \<Rightarrow> WorldMap \<Rightarrow> WorldMap" where
  "publishTiles c ts wm = fold (\<lambda>tile wm'. addSpatialIndexEntry wm' (hex tile) c) ts wm"

definition afterIndexPhase :: "World \<Rightarrow> ChunkGenerationState \<Rightarrow> World \<times> ChunkGenerationState" where
  "afterIndexPhase w state =
     (w\<lparr>worldMap := publishTiles (chunkHex state)
                       (drop (spatialIndexBatchIndex state) (grid (chunkObjs w (chunk state))))
                       (worldMap w)\<rparr>,
      state\<lparr>spatialIndexBatchIndex := length (grid (chunkObjs w (chunk state))),
            currentStep := complete_step\<rparr>)"

text \<open>A chunk object after its task has run.\<close>

definition generatedChunk :: "Chunk \<Rightarrow> nat \<Rightarrow> HexCoord \<Rightarrow> Chunk" where
  "generatedChunk c0 R pos =
     c0\<lparr>grid := map freshTile (generateHexGrid R (hq pos) (hr pos)),
        neighbors := calculateChunkNeighbors (positionHex c0) R,
        initialized := True\<rparr>"

text \<open>What caching does to one tile: a valid number sets the type, any other leaves it.\<close>

definition cachedTile :: "(int \<Rightarrow> int \<Rightarrow> int) \<Rightarrow> ChunkTile \<Rightarrow> ChunkTile" where
  "cachedTile get_tile_at t =
     (case tileTypeFromNumber (get_tile_at (hq (hex t)) (hr (hex t))) of
        None \<Rightarrow> t
      | Some k \<Rightarrow> t\<lparr>tileType := Some k\<rparr>)"

text \<open>
  The doubles that the constant subexpressions \<^verbatim>\<open>Math.sqrt(3)\<close>, \<^verbatim>\<open>Math.sqrt(3) / 2\<close>,
  \<^verbatim>\<open>Math.sqrt(3) / 3\<close>, \<^verbatim>\<open>1 / 3\<close> and \<^verbatim>\<open>2 / 3\<close> evaluate to (lemma \<open>d_consts\<close>).
\<close>

definition dSqrt3 :: real where "dSqrt3 = 7800463371553962 / 2 ^ 52"

definition dHalfSqrt3 :: real where "dHalfSqrt3 = 3900231685776981 / 4503599627370496"

definition dThirdSqrt3 :: real where "dThirdSqrt3 = 1300077228592327 / 2251799813685248"

definition dThird :: real where "dThird = 6004799503160661 / 18014398509481984"

definition dTwoThirds :: real where "dTwoThirds = 6004799503160661 / 9007199254740992"

section \<open>Properties of the packing neighbours\<close>

lemma distance_sum_even: "even (\<bar>q1 - q2\<bar> + \<bar>q1 + r1 - q2 - r2\<bar> + \<bar>r1 - r2\<bar> :: int)"
  by presburger








section \<open>Properties of the ring and grid enumeration\<close>

lemma walk_fold:
  "fold (\<lambda>j (currentHex, results). (cubeNeighbor currentHex i, results @ [currentHex])) [0..<n] (cur, res) =
     (cube_add cur (cube_scale (CUBE_DIRECTIONS ! (i mod 6)) (int n)),
      res @ map (\<lambda>j. cube_add cur (cube_scale (CUBE_DIRECTIONS ! (i mod 6)) (int j))) [0..<n])"
proof (induction n)
  case 0
  show ?case by (cases cur) (simp add: cube_add_def cube_scale_def)
next
  case (Suc n)
  have upt: "[0..<Suc n] = [0..<n] @ [n]" by simp
  show ?case
    unfolding upt fold_append o_apply Suc.IH
    by (simp add: cubeNeighbor_def cube_add_def cube_scale_def algebra_simps)
qed

lemma ringSide_eq:
  "ringSide k i (cur, res) =
     (cube_add cur (cube_scale (CUBE_DIRECTIONS ! (i mod 6)) (int k)),
      res @ map (\<lambda>j. cube_add cur (cube_scale (CUBE_DIRECTIONS ! (i mod 6)) (int j))) [0..<k])"
  unfolding ringSide_def by (rule walk_fold)

lemma upt_6: "[0..<6] = [0, 1, 2, 3, 4, 5::nat]"
  by (simp add: upt_rec)

lemma cubeRing_closed:
  assumes "0 < k"
  shows "cubeRing c k = map (cubeAt c) (ringOffsets k)"
  using assms
  by (cases c)
     (simp add: cubeRing_def upt_6 ringSide_eq CUBE_DIRECTIONS_def cube_add_def cube_scale_def
       ringOffsets_def cubeAt_def)


lemma ringOffsets_norm:
  assumes "p \<in> set (ringOffsets k)"
  shows "\<bar>fst p\<bar> + \<bar>fst p + snd p\<bar> + \<bar>snd p\<bar> = 2 * int k"
  using assms by (auto simp: ringOffsets_def)

lemma ringOffsets_distinct: "distinct (ringOffsets k)"
  by (auto simp: ringOffsets_def distinct_map inj_on_def)

lemma fold_set_add_fresh:
  "distinct xs \<Longrightarrow> set xs \<inter> set acc = {} \<Longrightarrow> fold set_add xs acc = acc @ xs"
proof (induction xs arbitrary: acc)
  case Nil
  then show ?case by simp
next
  case (Cons x xs)
  then show ?case by (simp add: set_add_def)
qed

lemma cubeAt_inj: "inj (cubeAt c)"
  by (auto simp: inj_on_def cubeAt_def)


lemma cubeRing_distinct: "distinct (cubeRing c k)"
proof (cases "k = 0")
  case True
  then show ?thesis by (simp add: cubeRing_def)
next
  case False
  then show ?thesis
    using inj_on_subset [OF cubeAt_inj [of c] subset_UNIV]
    by (simp add: cubeRing_closed distinct_map ringOffsets_distinct)
qed

lemma cubeRing_norm:
  assumes "x \<in> set (cubeRing c k)"
  shows "offNorm c x = 2 * int k"
proof (cases "k = 0")
  case True
  with assms show ?thesis by (simp add: cubeRing_def offNorm_def)
next
  case False
  with assms obtain p where p: "p \<in> set (ringOffsets k)" and x: "x = cubeAt c p"
    by (auto simp: cubeRing_closed)
  from ringOffsets_norm [OF p] show ?thesis
    by (simp add: x cubeAt_def offNorm_def)
qed

lemma cubeRing_sum:
  assumes "x \<in> set (cubeRing c k)"
  shows "cq x + cr x + cs x = cq c + cr c + cs c"
proof (cases "k = 0")
  case True
  with assms show ?thesis by (simp add: cubeRing_def)
next
  case False
  with assms show ?thesis
    by (auto simp: cubeRing_closed cubeAt_def)
qed

text \<open>Every hex of the ring of radius \<open>k\<close> is at cube distance \<open>k\<close> from the centre.\<close>

lemma cubeRing_cubeDistance:
  assumes "x \<in> set (cubeRing c k)" and "cq c + cr c + cs c = 0"
  shows "cubeDistance x c = int k"
proof -
  from cubeRing_sum [OF assms(1)] assms(2)
  have s: "cs x - cs c = - (cq x - cq c) - (cr x - cr c)"
    by simp
  from cubeRing_norm [OF assms(1)]
  have "\<bar>cq x - cq c\<bar> + \<bar>(cq x - cq c) + (cr x - cr c)\<bar> + \<bar>cr x - cr c\<bar> = 2 * int k"
    by (simp add: offNorm_def)
  then show ?thesis
    unfolding cubeDistance_def s by linarith
qed

lemma gridSet_Suc:
  "gridSet c (Suc R) = fold set_add (cubeRing c (Suc R)) (gridSet c R)"
  by (simp add: gridSet_def)

lemma gridSet_concat: "gridSet c R = concat (map (cubeRing c) [0..<Suc R])"
proof (induction R)
  case 0
  show ?case by (simp add: gridSet_def cubeRing_def set_add_def)
next
  case (Suc R)
  have "set (cubeRing c (Suc R)) \<inter> set (gridSet c R) = {}"
  proof (rule ccontr)
    assume "set (cubeRing c (Suc R)) \<inter> set (gridSet c R) \<noteq> {}"
    then obtain x where a: "x \<in> set (cubeRing c (Suc R))" and b: "x \<in> set (gridSet c R)"
      by blast
    from b obtain j where j: "j < Suc R" "x \<in> set (cubeRing c j)"
      unfolding Suc.IH by (auto simp del: upt_Suc)
    from cubeRing_norm [OF a] cubeRing_norm [OF j(2)] j(1) show False by simp
  qed
  then have "gridSet c (Suc R) = gridSet c R @ cubeRing c (Suc R)"
    unfolding gridSet_Suc by (intro fold_set_add_fresh cubeRing_distinct)
  then show ?case by (simp add: Suc.IH)
qed


lemma gridSet_member:
  assumes "x \<in> set (gridSet c R)"
  shows "offNorm c x \<le> 2 * int R \<and> cq x + cr x + cs x = cq c + cr c + cs c"
proof -
  from assms obtain j where j: "j < Suc R" "x \<in> set (cubeRing c j)"
    unfolding gridSet_concat by (auto simp del: upt_Suc)
  from cubeRing_norm [OF j(2)] cubeRing_sum [OF j(2)] j(1) show ?thesis by simp
qed

lemma generateHexGrid_eq:
  "generateHexGrid R q r = map (\<lambda>k. HexCoord (cq k) (cr k)) (gridSet (axialToCube q r) R)"
proof -
  have "filter (\<lambda>k. cq k + cr k + cs k = 0) (gridSet (axialToCube q r) R) = gridSet (axialToCube q r) R"
    by (rule filter_True) (auto dest: gridSet_member simp: axialToCube_def)
  then show ?thesis by (simp add: generateHexGrid_def)
qed


lemma generateHexGrid_distance:
  assumes "h \<in> set (generateHexGrid R q r)"
  shows "distance q r (hq h) (hr h) \<le> int R"
proof -
  from assms obtain x where x: "x \<in> set (gridSet (axialToCube q r) R)" and h: "h = HexCoord (cq x) (cr x)"
    unfolding generateHexGrid_eq by auto
  from gridSet_member [OF x] have "offNorm (axialToCube q r) x \<le> 2 * int R" by simp
  then show ?thesis
    by (simp add: h distance_def offNorm_def axialToCube_def)
qed

lemma generateHexGrid_filter:
  "filter (\<lambda>h. distance q r (hq h) (hr h) \<le> int R) (generateHexGrid R q r) = generateHexGrid R q r"
  by (rule filter_True) (simp add: generateHexGrid_distance)

lemma generateHexGrid_1_origin:
  "generateHexGrid (Suc 0) 0 0 =
     [HexCoord 0 0, HexCoord (-1) 1, HexCoord 0 1, HexCoord 1 0, HexCoord 1 (-1),
      HexCoord 0 (-1), HexCoord (-1) 0]"
  by code_simp

lemma generateHexGrid_1_east:
  "generateHexGrid (Suc 0) 1 0 =
     [HexCoord 1 0, HexCoord 0 1, HexCoord 1 1, HexCoord 2 0, HexCoord 2 (-1),
      HexCoord 1 (-1), HexCoord 0 0]"
  by code_simp

section \<open>Properties of the generation pipeline\<close>

declare runSteps.simps [simp del]

lemma slice_rest:
  "slice xs i (min (i + n) (length xs)) @ drop (min (i + n) (length xs)) xs = drop i xs"
proof (cases "i \<le> length xs")
  case True
  define m where "m = min n (length xs - i)"
  from True have e: "min (i + n) (length xs) = i + m"
    by (auto simp: m_def)
  have "slice xs i (i + m) @ drop (i + m) xs = take m (drop i xs) @ drop m (drop i xs)"
    by (simp add: slice_def add.commute)
  also have "\<dots> = drop i xs"
    by (rule append_take_drop_id)
  finally show ?thesis
    unfolding e .
next
  case False
  then show ?thesis by (simp add: slice_def)
qed

lemma stepGenerateGrid_more:
  assumes "min (gridBatchIndex state + GRID_BATCH_SIZE) (length (gridOf state)) < length (gridOf state)"
  shows "stepGenerateGrid w state =
           (Some StepGenerateGrid, w,
            state\<lparr>hexGrid := Some (gridOf state),
                  validatedGrid := validatedGrid state @
                    map freshTile (filter (inChunkRange state)
                      (slice (gridOf state) (gridBatchIndex state)
                         (min (gridBatchIndex state + GRID_BATCH_SIZE) (length (gridOf state))))),
                  gridBatchIndex := min (gridBatchIndex state + GRID_BATCH_SIZE) (length (gridOf state))\<rparr>)"
  using assms
  unfolding stepGenerateGrid_def gridOf_def [symmetric] inChunkRange_def [symmetric, abs_def] Let_def
  by simp

lemma stepGenerateGrid_last:
  assumes "\<not> min (gridBatchIndex state + GRID_BATCH_SIZE) (length (gridOf state)) < length (gridOf state)"
  shows "stepGenerateGrid w state =
           (Some StepComputeNeighbors, setGrid w (chunk state) (gridPhaseResult state),
            afterGridPhase state)"
proof -
  from assms have e: "min (gridBatchIndex state + GRID_BATCH_SIZE) (length (gridOf state)) = length (gridOf state)"
    by simp
  have "slice (gridOf state) (gridBatchIndex state) (length (gridOf state)) =
        drop (gridBatchIndex state) (gridOf state)"
    by (simp add: slice_def)
  then show ?thesis
    unfolding stepGenerateGrid_def gridOf_def [symmetric] inChunkRange_def [symmetric, abs_def] Let_def e
    by (simp add: gridPhaseResult_def afterGridPhase_def)
qed

lemma runSteps_grid_phase:
  "runSteps StepGenerateGrid w state =
     runSteps StepComputeNeighbors (setGrid w (chunk state) (gridPhaseResult state)) (afterGridPhase state)"
proof (induction "length (gridOf state) - gridBatchIndex state" arbitrary: state rule: less_induct)
  case less
  let ?e = "min (gridBatchIndex state + GRID_BATCH_SIZE) (length (gridOf state))"
  show ?case
  proof (cases "?e < length (gridOf state)")
    case True
    let ?state' = "state\<lparr>hexGrid := Some (gridOf state),
                  validatedGrid := validatedGrid state @
                    map freshTile (filter (inChunkRange state)
                      (slice (gridOf state) (gridBatchIndex state) ?e)),
                  gridBatchIndex := ?e\<rparr>"
    have g': "gridOf ?state' = gridOf state"
      by (simp add: gridOf_def)
    have r': "inChunkRange ?state' = inChunkRange state"
      by (simp add: inChunkRange_def [abs_def])
    have "length (gridOf ?state') - gridBatchIndex ?state'
                    < length (gridOf state) - gridBatchIndex state"
      unfolding g' using True by (simp add: GRID_BATCH_SIZE_def)
    from less [OF this]
    have ih: "runSteps StepGenerateGrid w ?state' =
       runSteps StepComputeNeighbors (setGrid w (chunk ?state') (gridPhaseResult ?state'))
         (afterGridPhase ?state')" .
    have res: "gridPhaseResult ?state' = gridPhaseResult state"
      using slice_rest [of "gridOf state" "gridBatchIndex state" GRID_BATCH_SIZE]
      by (simp add: gridPhaseResult_def g' r' flip: filter_append map_append)
    have aft: "afterGridPhase ?state' = afterGridPhase state"
      by (simp add: afterGridPhase_def g' res)
    have "runSteps StepGenerateGrid w state = runSteps StepGenerateGrid w ?state'"
      by (subst runSteps.simps) (simp add: applyStep_def stepGenerateGrid_more [OF True])
    with ih res aft show ?thesis by simp
  next
    case False
    show ?thesis
      by (subst runSteps.simps) (simp add: applyStep_def stepGenerateGrid_last [OF False])
  qed
qed

lemma runSteps_neighbors:
  "runSteps StepComputeNeighbors w state =
     runSteps StepUpdateSpatialIndex
       (markInitialized
          (setNeighbors w (chunk state)
             (calculateChunkNeighbors (positionHex (chunkObjs w (chunk state))) (rings state)))
          (chunk state))
       (state\<lparr>currentStep := spatialIndex_step\<rparr>)"
  by (subst runSteps.simps) (simp add: applyStep_def stepComputeNeighbors_def Let_def)

lemma publishTiles_append:
  "publishTiles c (ts @ us) wm = publishTiles c us (publishTiles c ts wm)"
  by (simp add: publishTiles_def)

lemma publishTiles_index:
  "spatialIndex (publishTiles c ts wm) h =
     (if h \<in> hex ` set ts then Some c else spatialIndex wm h)"
  unfolding publishTiles_def
  by (induction ts arbitrary: wm) (auto simp: addSpatialIndexEntry_def)

lemma publishTiles_chunks: "chunks (publishTiles c ts wm) = chunks wm"
  unfolding publishTiles_def
  by (induction ts arbitrary: wm) (auto simp: addSpatialIndexEntry_def)

lemma runSteps_index_phase:
  "runSteps StepUpdateSpatialIndex w state = afterIndexPhase w state"
proof (induction "length (grid (chunkObjs w (chunk state))) - spatialIndexBatchIndex state"
         arbitrary: w state rule: less_induct)
  case less
  let ?G = "grid (chunkObjs w (chunk state))"
  let ?i = "spatialIndexBatchIndex state"
  let ?e = "min (?i + SPATIAL_INDEX_BATCH_SIZE) (length ?G)"
  let ?w' = "w\<lparr>worldMap := publishTiles (chunkHex state) (slice ?G ?i ?e) (worldMap w)\<rparr>"
  let ?state' = "state\<lparr>spatialIndexBatchIndex := ?e\<rparr>"
  have step: "stepUpdateSpatialIndex w state =
     (if ?e < length ?G then (Some StepUpdateSpatialIndex, ?w', ?state')
      else (None, ?w', ?state'\<lparr>currentStep := complete_step\<rparr>))"
    by (simp add: stepUpdateSpatialIndex_def Let_def publishTiles_def)
  have rest: "slice ?G ?i ?e @ drop ?e ?G = drop ?i ?G"
    by (rule slice_rest)
  show ?case
  proof (cases "?e < length ?G")
    case True
    have G': "grid (chunkObjs ?w' (chunk ?state')) = ?G" by simp
    have "length (grid (chunkObjs ?w' (chunk ?state'))) - spatialIndexBatchIndex ?state'
            < length ?G - ?i"
      unfolding G' using True by (simp add: SPATIAL_INDEX_BATCH_SIZE_def)
    from less [OF this]
    have ih: "runSteps StepUpdateSpatialIndex ?w' ?state' = afterIndexPhase ?w' ?state'" .
    have "afterIndexPhase ?w' ?state' = afterIndexPhase w state"
      unfolding afterIndexPhase_def
      by (simp add: publishTiles_append [symmetric] rest)
    moreover have "runSteps StepUpdateSpatialIndex w state = runSteps StepUpdateSpatialIndex ?w' ?state'"
      by (subst runSteps.simps) (simp add: applyStep_def step True)
    ultimately show ?thesis using ih by simp
  next
    case False
    then have e: "?e = length ?G" by simp
    have "slice ?G ?i (length ?G) = drop ?i ?G" by (simp add: slice_def)
    then show ?thesis
      by (subst runSteps.simps) (simp add: applyStep_def step False e afterIndexPhase_def)
  qed
qed

lemma createProcessingState_result:
  "gridPhaseResult (createProcessingState c R sz pos) =
     map freshTile (generateHexGrid R (hq pos) (hr pos))"
  unfolding gridPhaseResult_def createProcessingState_def gridOf_def inChunkRange_def [abs_def]
  by (simp add: generateHexGrid_filter)

lemma runSteps_all:
  "fst (runSteps StepGenerateGrid w (createProcessingState c R sz pos)) =
     w\<lparr>chunkObjs := (chunkObjs w)(c := generatedChunk (chunkObjs w c) R pos),
       worldMap := publishTiles pos (map freshTile (generateHexGrid R (hq pos) (hr pos))) (worldMap w)\<rparr>"
  unfolding runSteps_grid_phase runSteps_neighbors runSteps_index_phase
    createProcessingState_result
  by (simp add: afterIndexPhase_def afterGridPhase_def createProcessingState_def
      setGrid_def setNeighbors_def markInitialized_def generatedChunk_def)



lemma hex_freshTile: "hex (freshTile h) = h"
  by (simp add: freshTile_def)





lemma requestChunk_fresh:
  assumes "chunks (worldMap w) pos = None"
  shows "requestChunk w pos R =
     w\<lparr>chunkObjs := (chunkObjs w)
          (nextRef w := generatedChunk (newChunk pos TILE_CONFIG_hexSize) R pos),
       nextRef := Suc (nextRef w),
       worldMap := publishTiles pos (map freshTile (generateHexGrid R (hq pos) (hr pos)))
                     ((worldMap w)\<lparr>chunks := (chunks (worldMap w))(pos \<mapsto> nextRef w)\<rparr>)\<rparr>"
  using assms
  by (simp add: requestChunk_def enqueue_def emptyQueue_def getChunk_def Let_def
      addChunkPlaceholder_def processTask_def runSteps_all)

lemma requestChunk_index:
  assumes "chunks (worldMap w) pos = None"
  shows "spatialIndex (worldMap (requestChunk w pos R)) h =
           (if h \<in> set (generateHexGrid R (hq pos) (hr pos)) then Some pos
            else spatialIndex (worldMap w) h)"
    and "chunks (worldMap (requestChunk w pos R)) = (chunks (worldMap w))(pos \<mapsto> nextRef w)"
  by (simp_all add: requestChunk_fresh [OF assms] publishTiles_index publishTiles_chunks
      image_image hex_freshTile)

text \<open>
  C1, as the spec states it, fails: publishing overwrites. When the chunk at \<open>(0, 0)\<close>
  of radius 1 has been generated in an empty world, the index maps the tile \<open>(1, 0)\<close>
  to \<open>(0, 0)\<close>; when the chunk at \<open>(1, 0)\<close>, which enumerates that tile too, has been
  generated after it, the index maps the tile to \<open>(1, 0)\<close>.
\<close>

theorem index_phase_overwrites_entry:
  "spatialIndex (worldMap (requestChunk emptyWorld (HexCoord 0 0) 1)) (HexCoord 1 0)
     = Some (HexCoord 0 0) \<and>
   spatialIndex (worldMap (requestChunk (requestChunk emptyWorld (HexCoord 0 0) 1) (HexCoord 1 0) 1))
     (HexCoord 1 0) = Some (HexCoord 1 0)"
proof -
  have e: "chunks (worldMap emptyWorld) (HexCoord 0 0) = None"
    by (simp add: emptyWorld_def)
  have f: "chunks (worldMap (requestChunk emptyWorld (HexCoord 0 0) 1)) (HexCoord 1 0) = None"
    unfolding requestChunk_index(2) [OF e] by (simp add: emptyWorld_def)
  show ?thesis
    unfolding requestChunk_index(1) [OF f] requestChunk_index(1) [OF e]
    by (simp add: generateHexGrid_1_origin generateHexGrid_1_east)
qed

text \<open>
  C1, amended. The index phase of a chunk writes the centre of the chunk for the hex
  of every tile of its grid, whether or not the hex has an entry, and leaves every
  other entry as it is: an entry for a hex that the chunk enumerates holds the centre
  of that chunk afterwards (the last writer wins).
\<close>

theorem index_phase_last_writer_wins:
  assumes "spatialIndexBatchIndex state = 0"
  shows "spatialIndex (worldMap (fst (runSteps StepUpdateSpatialIndex w state))) h =
           (if h \<in> hex ` set (grid (chunkObjs w (chunk state))) then Some (chunkHex state)
            else spatialIndex (worldMap w) h)"
  using assms
  by (simp add: runSteps_index_phase afterIndexPhase_def publishTiles_index)

theorem index_phase_last_writer_wins_witness:
  "spatialIndexBatchIndex (createProcessingState 0 1 TILE_CONFIG_hexSize (HexCoord 1 0)) = 0 \<and>
   spatialIndex (worldMap overlapWorld) (HexCoord 1 0) = Some (HexCoord 0 0) \<and>
   spatialIndex (worldMap (fst (runSteps StepUpdateSpatialIndex overlapWorld
       (createProcessingState 0 1 TILE_CONFIG_hexSize (HexCoord 1 0))))) (HexCoord 1 0)
     = Some (HexCoord 1 0)"
proof -
  have z: "spatialIndexBatchIndex (createProcessingState 0 1 TILE_CONFIG_hexSize (HexCoord 1 0)) = 0"
    by (simp add: createProcessingState_def)
  from index_phase_last_writer_wins [OF z, of overlapWorld "HexCoord 1 0"]
  show ?thesis
    by (simp add: z overlapWorld_def createProcessingState_def)
qed

section \<open>Properties of the fast lookup\<close>

text \<open>
  C5, as the spec states it, fails: an entry whose chunk is present but farther than
  \<open>R\<close> from the tile is not deleted. In \<open>staleMap\<close> the tile \<open>(5, 5)\<close> is indexed to
  the present chunk at \<open>(0, 0)\<close>, at distance 10; the lookup with \<open>R = 1\<close> returns
  \<^verbatim>\<open>null\<close> and the entry is still in the index.
\<close>

theorem getChunkForTileFast_keeps_stale_entry:
  "spatialIndex staleMap (HexCoord 5 5) = Some (HexCoord 0 0) \<and>
   \<not> distance 5 5 0 0 \<le> 1 \<and>
   fst (getChunkForTileFast staleMap (HexCoord 5 5) 1) = None \<and>
   spatialIndex (snd (getChunkForTileFast staleMap (HexCoord 5 5) 1)) (HexCoord 5 5) = Some (HexCoord 0 0)"
  by (simp add: staleMap_def getChunkForTileFast_def getChunk_def distance_def)

text \<open>
  C5, amended. For an indexed tile the fast lookup checks that the indexed chunk is
  present and that its centre is within distance \<open>R\<close> of the tile. When the chunk is
  absent, the entry is deleted and \<^verbatim>\<open>null\<close> returned; when the chunk is present and
  the distance exceeds \<open>R\<close>, \<^verbatim>\<open>null\<close> is returned and the world map, the entry
  included, is unchanged; otherwise the indexed centre is returned.
\<close>

theorem getChunkForTileFast_stale_entry:
  assumes "spatialIndex wm tileHex = Some chunkPos"
  shows "(chunks wm chunkPos = None \<longrightarrow>
            getChunkForTileFast wm tileHex R =
              (None, wm\<lparr>spatialIndex := (spatialIndex wm)(tileHex := None)\<rparr>)) \<and>
         (chunks wm chunkPos \<noteq> None \<and>
          \<not> distance (hq tileHex) (hr tileHex) (hq chunkPos) (hr chunkPos) \<le> int R \<longrightarrow>
            getChunkForTileFast wm tileHex R = (None, wm)) \<and>
         (chunks wm chunkPos \<noteq> None \<and>
          distance (hq tileHex) (hr tileHex) (hq chunkPos) (hr chunkPos) \<le> int R \<longrightarrow>
            getChunkForTileFast wm tileHex R = (Some chunkPos, wm))"
  using assms by (auto simp: getChunkForTileFast_def getChunk_def)

theorem getChunkForTileFast_stale_entry_witness:
  "spatialIndex staleMap (HexCoord 5 5) = Some (HexCoord 0 0) \<and>
   chunks staleMap (HexCoord 0 0) \<noteq> None \<and>
   getChunkForTileFast staleMap (HexCoord 5 5) 1 = (None, staleMap)"
proof -
  have a: "spatialIndex staleMap (HexCoord 5 5) = Some (HexCoord 0 0)"
    by (simp add: staleMap_def)
  have b: "chunks staleMap (HexCoord 0 0) \<noteq> None"
    by (simp add: staleMap_def)
  have c: "\<not> distance (hq (HexCoord 5 5)) (hr (HexCoord 5 5)) (hq (HexCoord 0 0)) (hr (HexCoord 0 0)) \<le> int 1"
    by (simp add: distance_def)
  from getChunkForTileFast_stale_entry [OF a, of 1] b c
  have "getChunkForTileFast staleMap (HexCoord 5 5) 1 = (None, staleMap)" by blast
  with a b show ?thesis by simp
qed

section \<open>Properties of enqueue\<close>

text \<open>
  C6. For every call of \<open>enqueue\<close>: when a task for the centre exists, its priority
  becomes the maximum of its priority and the new one, its promise is returned and
  the world is unchanged; when there is no task and the chunk exists and is
  initialized, a promise resolved with that chunk is returned and neither the queue
  nor the world changes; when neither a task nor a chunk exists, a new placeholder
  chunk is in the world map at the centre and a pending task with a new promise is
  registered for it (the definition makes the two updates in this order).
\<close>

theorem enqueue_cases:
  "(\<forall>t. tasks queue pos = Some t \<longrightarrow>
      enqueue queue w pos R sz prio =
        (promise t,
         queue\<lparr>tasks := (tasks queue)(pos \<mapsto> t\<lparr>priority := max (priority t) prio\<rparr>)\<rparr>,
         w)) \<and>
   (\<forall>c. tasks queue pos = None \<and> chunks (worldMap w) pos = Some c \<and> initialized (chunkObjs w c) \<longrightarrow>
      enqueue queue w pos R sz prio = (ResolvedPromise c, queue, w)) \<and>
   (tasks queue pos = None \<and> chunks (worldMap w) pos = None \<longrightarrow>
      (case enqueue queue w pos R sz prio of (p, queue', w') \<Rightarrow>
         chunks (worldMap w') pos = Some (nextRef w) \<and>
         chunkObjs w' (nextRef w) = newChunk pos sz \<and>
         (\<forall>c. c \<noteq> nextRef w \<longrightarrow> chunkObjs w' c = chunkObjs w c) \<and>
         (\<forall>pos'. pos' \<noteq> pos \<longrightarrow> chunks (worldMap w') pos' = chunks (worldMap w) pos') \<and>
         p = TaskPromise (nextPromise queue) \<and>
         tasks queue' pos =
           Some \<lparr>taskChunkHex = pos, taskRings = R, taskHexSize = sz, priority = prio,
                 status = pending, promise = p, processingState = None, taskStep = None\<rparr>))"
  apply (intro conjI allI impI)
    apply (auto simp: enqueue_def getChunk_def Let_def addChunkPlaceholder_def max_def fun_upd_idem)
  done

theorem enqueue_cases_witness:
  "tasks busyQueue (HexCoord 0 0) = Some queuedTask \<and>
   fst (enqueue busyQueue emptyWorld (HexCoord 0 0) 2 TILE_CONFIG_hexSize 100) = TaskPromise 0 \<and>
   map_option priority
     (tasks (fst (snd (enqueue busyQueue emptyWorld (HexCoord 0 0) 2 TILE_CONFIG_hexSize 100)))
        (HexCoord 0 0)) = Some 100 \<and>
   initialized (chunkObjs readyWorld 0) \<and>
   enqueue emptyQueue readyWorld (HexCoord 0 0) 2 TILE_CONFIG_hexSize 100
     = (ResolvedPromise 0, emptyQueue, readyWorld) \<and>
   chunks (worldMap emptyWorld) (HexCoord 0 0) = None \<and>
   chunks (worldMap (snd (snd (enqueue emptyQueue emptyWorld (HexCoord 0 0) 2 TILE_CONFIG_hexSize 100))))
     (HexCoord 0 0) = Some 0 \<and>
   map_option status
     (tasks (fst (snd (enqueue emptyQueue emptyWorld (HexCoord 0 0) 2 TILE_CONFIG_hexSize 100)))
        (HexCoord 0 0)) = Some pending"
proof -
  have t1: "tasks busyQueue (HexCoord 0 0) = Some queuedTask"
    by (simp add: busyQueue_def)
  have t2: "tasks emptyQueue (HexCoord 0 0) = None"
    by (simp add: emptyQueue_def)
  have c2: "chunks (worldMap readyWorld) (HexCoord 0 0) = Some 0"
    and i2: "initialized (chunkObjs readyWorld 0)"
    by (simp_all add: readyWorld_def)
  have c3: "chunks (worldMap emptyWorld) (HexCoord 0 0) = None"
    and n3: "nextRef emptyWorld = 0"
    by (simp_all add: emptyWorld_def)
  note a = enqueue_cases [of busyQueue "HexCoord 0 0" emptyWorld 2 TILE_CONFIG_hexSize 100]
  note b = enqueue_cases [of emptyQueue "HexCoord 0 0" readyWorld 2 TILE_CONFIG_hexSize 100]
  note c = enqueue_cases [of emptyQueue "HexCoord 0 0" emptyWorld 2 TILE_CONFIG_hexSize 100]
  note r1 = a [THEN conjunct1, rule_format, OF t1]
  note r2 = b [THEN conjunct2, THEN conjunct1, rule_format, OF conjI [OF t2 conjI [OF c2 i2]]]
  note r3 = c [THEN conjunct2, THEN conjunct2, rule_format, OF conjI [OF t2 c3]]
  from r3 have r3a:
    "chunks (worldMap (snd (snd (enqueue emptyQueue emptyWorld (HexCoord 0 0) 2 TILE_CONFIG_hexSize 100))))
       (HexCoord 0 0) = Some 0"
    and r3b: "map_option status
     (tasks (fst (snd (enqueue emptyQueue emptyWorld (HexCoord 0 0) 2 TILE_CONFIG_hexSize 100)))
        (HexCoord 0 0)) = Some pending"
    by (auto simp: n3 split: prod.splits)
  show ?thesis
    using t1 i2 r2 c3 r3a r3b
    by (simp add: r1 queuedTask_def)
qed

section \<open>Properties of the tile cache\<close>

lemma setTileTypeIn_distinct:
  assumes "distinct (map hex ts)"
  shows "setTileTypeIn ts h k = map (\<lambda>t. if hex t = h then t\<lparr>tileType := k\<rparr> else t) ts"
  using assms
proof (induction ts)
  case Nil
  show ?case by simp
next
  case (Cons t ts)
  have eq: "(hq (hex t) = hq h \<and> hr (hex t) = hr h) = (hex t = h)"
    by (auto simp: HexCoord.expand)
  show ?case
  proof (cases "hex t = h")
    case True
    with Cons.prems have "\<forall>u \<in> set ts. hex u \<noteq> h" by (auto simp: image_iff)
    then have "map (\<lambda>t. if hex t = h then t\<lparr>tileType := k\<rparr> else t) ts = ts"
      by (induction ts) auto
    with True show ?thesis by (simp add: eq)
  next
    case False
    with Cons show ?thesis by (simp add: eq)
  qed
qed

lemma hex_cachedTile: "hex (cachedTile g t) = hex t"
  by (simp add: cachedTile_def split: option.splits)

lemma cache_fold:
  assumes "distinct (map hex (grid c))" "distinct hs"
  shows "fold (\<lambda>h c'. case tileTypeFromNumber (g (hq h) (hr h)) of
                        None \<Rightarrow> c'
                      | Some k \<Rightarrow> setTileType c' h (Some k)) hs c =
         c\<lparr>grid := map (\<lambda>t. if hex t \<in> set hs then cachedTile g t else t) (grid c)\<rparr>"
  using assms
proof (induction hs arbitrary: c)
  case Nil
  show ?case by simp
next
  case (Cons h hs)
  let ?c1 = "case tileTypeFromNumber (g (hq h) (hr h)) of
               None \<Rightarrow> c | Some k \<Rightarrow> setTileType c h (Some k)"
  have c1: "?c1 = c\<lparr>grid := map (\<lambda>t. if hex t = h then cachedTile g t else t) (grid c)\<rparr>"
  proof (cases "tileTypeFromNumber (g (hq h) (hr h))")
    case None
    have "map (\<lambda>t. if hex t = h then cachedTile g t else t) (grid c) = grid c"
      by (rule map_idI) (simp add: cachedTile_def None)
    with None show ?thesis by simp
  next
    case (Some k)
    have "map (\<lambda>t. if hex t = h then t\<lparr>tileType := Some k\<rparr> else t) (grid c) =
          map (\<lambda>t. if hex t = h then cachedTile g t else t) (grid c)"
      by (rule map_cong) (auto simp: cachedTile_def Some)
    with Some show ?thesis
      by (simp add: setTileType_def setTileTypeIn_distinct [OF Cons.prems(1)])
  qed
  have d1: "distinct (map hex (grid ?c1))"
    using Cons.prems(1) unfolding c1
    by (simp add: comp_def hex_cachedTile if_distrib [of hex] cong: if_cong)
  from Cons.prems(2) have d2: "distinct hs" and nh: "h \<notin> set hs" by simp_all
  have "fold (\<lambda>h c'. case tileTypeFromNumber (g (hq h) (hr h)) of
                        None \<Rightarrow> c'
                      | Some k \<Rightarrow> setTileType c' h (Some k)) (h # hs) c =
        ?c1\<lparr>grid := map (\<lambda>t. if hex t \<in> set hs then cachedTile g t else t) (grid ?c1)\<rparr>"
    using Cons.IH [OF d1 d2] by simp
  also have "\<dots> = c\<lparr>grid := map (\<lambda>t. if hex t \<in> set (h # hs) then cachedTile g t else t) (grid c)\<rparr>"
    unfolding c1 using nh
    by (auto simp: hex_cachedTile)
  finally show ?case .
qed

lemma cacheTileTypes_distinct:
  assumes "distinct (map hex (grid c))"
  shows "cacheTileTypes g c = c\<lparr>grid := map (cachedTile g) (grid c), tilesGenerated := True\<rparr>"
proof -
  have "map (\<lambda>t. if hex t \<in> set (map hex (grid c)) then cachedTile g t else t) (grid c) =
        map (cachedTile g) (grid c)"
    by (rule map_cong) auto
  then show ?thesis
    unfolding cacheTileTypes_def cache_fold [OF assms assms] setTilesGenerated_def
    by simp
qed

lemma cacheTileTypes_generated: "tilesGenerated (cacheTileTypes g c)"
  by (simp add: cacheTileTypes_def setTilesGenerated_def)

lemma fold_updateChunk_other:
  "c \<notin> set refs \<Longrightarrow> chunkObjs (fold (updateChunk f) refs w) c = chunkObjs w c"
  by (induction refs arbitrary: w) (simp_all add: updateChunk_def)

text \<open>
  Without \<^verbatim>\<open>forceRecompute\<close>, a chunk that is marked as generated and whose tiles
  all have a type is not among the chunks to update.
\<close>

lemma cacheGeneratedTiles_skips_complete_chunk:
  assumes "tilesGenerated (chunkObjs w r)" and "hasAllTilesGenerated (chunkObjs w r)"
  shows "chunkObjs (cacheGeneratedTiles get_tile_at False enabledChunks w) r = chunkObjs w r"
proof -
  from assms
  have "r \<notin> set (filter (\<lambda>c. \<not> (tilesGenerated (chunkObjs w c) \<and>
                                    hasAllTilesGenerated (chunkObjs w c))) enabledChunks)"
    by simp
  then show ?thesis
    by (simp add: cacheGeneratedTiles_def Let_def fold_updateChunk_other)
qed

text \<open>
  C7 at a concrete chunk. The claim says that a chunk which is marked as generated has
  a type on every tile, and that the pass marks a chunk only after it has given every
  tile a type. For a chunk with one tile and a layout that has no tile at its hex
  (\<^verbatim>\<open>get_tile_at\<close> returns \<open>-1\<close>, which \<^verbatim>\<open>tileTypeFromNumber\<close> maps to \<^verbatim>\<open>null\<close>),
  the guarded write is skipped and \<^verbatim>\<open>setTilesGenerated(true)\<close> runs all the same:
  the chunk is marked as generated and its tile still has no type.
\<close>

theorem cacheTileTypes_generated_without_types:
  "tilesGenerated (cacheTileTypes noTileAt oneTileChunk) \<and>
   \<not> hasAllTilesGenerated (cacheTileTypes noTileAt oneTileChunk)"
  by (simp add: cacheTileTypes_def oneTileChunk_def noTileAt_def tileTypeFromNumber_def
      setTilesGenerated_def hasAllTilesGenerated_def)

section \<open>Properties of the double arithmetic\<close>

lemma pow2_pos: "0 < pow2 k"
  by (simp add: pow2_def)

lemma pow2_mono: "a \<le> b \<Longrightarrow> pow2 a \<le> pow2 b"
  by (simp add: pow2_def divide_right_mono)

lemma pow2_Suc: "pow2 (Suc k) = 2 * pow2 k"
  by (simp add: pow2_def)

lemma pow2_add: "pow2 (a + b) = 2 ^ a * pow2 b"
  by (simp add: pow2_def power_add)

lemma roundEven_near: "\<bar>of_int (roundEven y) - y\<bar> \<le> 1 / 2"
  unfolding roundEven_def Let_def by (auto; linarith)

lemma roundEven_unique:
  assumes "\<bar>y - of_int n\<bar> < 1 / 2"
  shows "roundEven y = n"
proof -
  have "\<bar>(of_int (roundEven y) :: real) - of_int n\<bar> < 1"
    using roundEven_near [of y] assms by linarith
  then have "\<bar>roundEven y - n\<bar> < 1"
    by (metis of_int_diff of_int_abs of_int_less_1_iff)
  then show ?thesis by simp
qed

lemma roundEven_minus: "roundEven (- y) = - roundEven y"
proof (cases "y \<in> \<int>")
  case True
  then obtain n where "y = of_int n" by (auto elim: Ints_cases)
  then show ?thesis
    by (simp add: roundEven_unique [of _ n] roundEven_unique [of _ "- n"])
next
  case False
  then have flr: "\<lfloor>- y\<rfloor> = - \<lfloor>y\<rfloor> - 1"
    by (metis ceiling_def ceiling_altdef Ints_of_int add_diff_cancel_right' minus_diff_eq uminus_add_conv_diff  minus_minus)
  show ?thesis
    unfolding roundEven_def Let_def flr
    by (auto; linarith)
qed

lemma binadeFrom_spec:
  assumes "b = 0 \<or> pow2 (b + 52) \<le> \<bar>x\<bar>"
  shows "b \<le> binadeFrom n b x \<and> binadeFrom n b x \<le> b + n \<and>
         (binadeFrom n b x = 0 \<or> pow2 (binadeFrom n b x + 52) \<le> \<bar>x\<bar>) \<and>
         (binadeFrom n b x < b + n \<longrightarrow> \<bar>x\<bar> < pow2 (binadeFrom n b x + 53))"
  using assms
proof (induction n arbitrary: b)
  case 0
  then show ?case by simp
next
  case (Suc n)
  show ?case
  proof (cases "\<bar>x\<bar> < pow2 (b + 53)")
    case True
    with Suc.prems show ?thesis by simp
  next
    case False
    moreover have "pow2 (Suc b + 52) = pow2 (b + 53)" by (simp add: add.commute)
    ultimately have "Suc b = 0 \<or> pow2 (Suc b + 52) \<le> \<bar>x\<bar>" by (simp del: add_Suc)
    from Suc.IH [OF this] False show ?thesis by auto
  qed
qed

lemma binade_spec:
  "binade x \<le> 2045 \<and> (binade x = 0 \<or> pow2 (binade x + 52) \<le> \<bar>x\<bar>) \<and>
   (binade x < 2045 \<longrightarrow> \<bar>x\<bar> < pow2 (binade x + 53))"
  using binadeFrom_spec [of 0 x 2045] by (simp add: binade_def)

lemma binade_eq:
  assumes "b = 0 \<or> pow2 (b + 52) \<le> \<bar>x\<bar>" and "\<bar>x\<bar> < pow2 (b + 53)" and "b \<le> 2045"
  shows "binade x = b"
proof (rule ccontr)
  assume ne: "binade x \<noteq> b"
  note s = binade_spec [of x]
  show False
  proof (cases "binade x < b")
    case True
    with assms(3) s have "\<bar>x\<bar> < pow2 (binade x + 53)" by simp
    also have "\<dots> \<le> pow2 (b + 52)" using True by (intro pow2_mono) simp
    finally show False using assms(1) True by auto
  next
    case False
    with ne have gt: "b < binade x" by simp
    with s have "pow2 (binade x + 52) \<le> \<bar>x\<bar>" by auto
    moreover have "pow2 (b + 53) \<le> pow2 (binade x + 52)" using gt by (intro pow2_mono) simp
    ultimately show False using assms(2) by simp
  qed
qed

lemma binadeFrom_minus: "binadeFrom n b (- x) = binadeFrom n b x"
  by (induction n arbitrary: b) simp_all

lemma binade_minus: "binade (- x) = binade x"
  by (simp add: binade_def binadeFrom_minus)

lemma quantum_pos: "0 < quantum x"
  by (simp add: quantum_def pow2_pos)

text \<open>The rounding error of \<open>fl\<close> away from overflow.\<close>

lemma fl_error:
  assumes "\<bar>x\<bar> < pow2 2097"
  obtains v where "fl x = Finite v" and "\<bar>v - x\<bar> \<le> \<bar>x\<bar> / 2 ^ 53 + 1 / 2 ^ 1075"
proof -
  define q where "q = quantum x"
  define v where "v = of_int (roundEven (x / q)) * q"
  have qpos: "0 < q" by (simp add: q_def quantum_pos)
  note s = binade_spec [of x]
  have lt: "binade x < 2045"
  proof (rule ccontr)
    assume "\<not> binade x < 2045"
    with s have "binade x = 2045" by simp
    with s have "pow2 2097 \<le> \<bar>x\<bar>" by simp
    with assms show False by simp
  qed
  have "\<bar>of_int (roundEven (x / q)) - x / q\<bar> \<le> 1 / 2"
    by (rule roundEven_near)
  then have "\<bar>of_int (roundEven (x / q)) - x / q\<bar> * q \<le> 1 / 2 * q"
    using qpos by (intro mult_right_mono) simp_all
  moreover have "\<bar>of_int (roundEven (x / q)) - x / q\<bar> * q = \<bar>v - x\<bar>"
  proof -
    have "(of_int (roundEven (x / q)) - x / q) * q = v - x"
      using qpos by (simp add: v_def left_diff_distrib)
    then have "\<bar>v - x\<bar> = \<bar>of_int (roundEven (x / q)) - x / q\<bar> * \<bar>q\<bar>"
      by (simp only: abs_mult [symmetric])
    with qpos show ?thesis by simp
  qed
  ultimately have near: "\<bar>v - x\<bar> \<le> q / 2" by simp
  have qb: "q / 2 \<le> \<bar>x\<bar> / 2 ^ 53 + 1 / 2 ^ 1075"
  proof (cases "binade x = 0")
    case True
    then have "q / 2 = 1 / 2 ^ 1075" by (simp add: q_def quantum_def pow2_def)
    then show ?thesis by simp
  next
    case False
    with s have "pow2 (binade x + 52) \<le> \<bar>x\<bar>" by simp
    moreover have "pow2 (binade x + 52) = 2 ^ 52 * q"
      unfolding q_def quantum_def pow2_def by (simp add: power_add)
    ultimately have "2 ^ 52 * q \<le> \<bar>x\<bar>"
      by (simp only:)
    then have "q / 2 \<le> \<bar>x\<bar> / 2 ^ 53" by simp
    then show ?thesis by simp
  qed
  have "q \<le> pow2 2044"
    unfolding q_def quantum_def using lt by (intro pow2_mono) simp
  then have "q / 2 \<le> pow2 2044" using qpos by simp
  with near assms have "\<bar>v\<bar> < pow2 2097 + pow2 2044" by linarith
  also have "\<dots> \<le> pow2 2098" by (simp add: pow2_def)
  finally have "\<not> v \<ge> pow2 2098" "\<not> v \<le> - pow2 2098" by linarith+
  then have "fl x = Finite v"
    by (simp add: fl_def Let_def v_def q_def)
  with near qb that show ?thesis by force
qed

lemma fl_eval:
  assumes "b = 0 \<or> pow2 (b + 52) \<le> \<bar>x\<bar>" and "\<bar>x\<bar> < pow2 (b + 53)" and "b \<le> 2045"
    and "\<bar>x / pow2 b - of_int n\<bar> < 1 / 2"
    and "\<bar>of_int n * pow2 b\<bar> < pow2 2098"
  shows "fl x = Finite (of_int n * pow2 b)"
proof -
  have b: "binade x = b" by (rule binade_eq) (rule assms)+
  have r: "roundEven (x / pow2 b) = n" by (rule roundEven_unique) (rule assms(4))
  from assms(5) have "\<not> of_int n * pow2 b \<ge> pow2 2098" "\<not> of_int n * pow2 b \<le> - pow2 2098"
    by linarith+
  then show ?thesis
    by (simp add: fl_def Let_def quantum_def b r)
qed

lemma fl_exact:
  assumes "x / quantum x \<in> \<int>" and "\<bar>x\<bar> < pow2 2098"
  shows "fl x = Finite x"
proof -
  from assms(1) obtain n where n: "x / quantum x = of_int n" by (auto elim: Ints_cases)
  then have r: "roundEven (x / quantum x) = n" by (simp add: roundEven_unique)
  have "of_int n * quantum x = x"
    using n quantum_pos [of x] by (simp add: field_simps)
  moreover from assms(2) have "\<not> x \<ge> pow2 2098" "\<not> x \<le> - pow2 2098"
    by linarith+
  ultimately show ?thesis
    by (simp add: fl_def Let_def r)
qed

lemma fl_zero: "fl 0 = Finite 0"
  by (rule fl_exact) (simp_all add: pow2_pos)

lemma fl_of_int:
  assumes "\<bar>n\<bar> < 2 ^ 53"
  shows "fl (of_int n) = Finite (of_int n)"
proof (cases "n = 0")
  case True
  then show ?thesis by (simp add: fl_zero)
next
  case False
  define x :: real where "x = of_int n"
  note s = binade_spec [of x]
  have one: "pow2 1074 \<le> \<bar>x\<bar>"
    using False by (simp add: pow2_def x_def)
  have up: "\<bar>x\<bar> < pow2 1127"
    using assms unfolding x_def pow2_def
    by (simp add: power_add [symmetric] flip: of_int_abs)
  have le: "binade x \<le> 1074"
  proof (rule ccontr)
    assume "\<not> binade x \<le> 1074"
    then have g: "1075 \<le> binade x" by simp
    with s have "pow2 (binade x + 52) \<le> \<bar>x\<bar>" by auto
    moreover have "pow2 1127 \<le> pow2 (binade x + 52)" using g by (intro pow2_mono) simp
    ultimately show False using up by simp
  qed
  have "x / quantum x = of_int n * 2 ^ (1074 - binade x)"
    using le by (simp add: quantum_def pow2_def x_def power_diff)
  then have "x / quantum x \<in> \<int>" by simp
  moreover have "\<bar>x\<bar> < pow2 2098"
    using up pow2_mono [of 1127 2098] by simp
  ultimately show ?thesis unfolding x_def [symmetric] by (rule fl_exact)
qed

text \<open>Ties and overflow.\<close>

lemma roundEven_tie:
  assumes "y = of_int f + 1 / 2"
  shows "roundEven y = (if even f then f else f + 1)"
proof -
  have "\<lfloor>y\<rfloor> = f" unfolding assms by (rule floor_unique) simp_all
  then show ?thesis unfolding roundEven_def Let_def by (simp add: assms)
qed

lemma fl_eval_tie:
  assumes "b = 0 \<or> pow2 (b + 52) \<le> \<bar>x\<bar>" and "\<bar>x\<bar> < pow2 (b + 53)" and "b \<le> 2045"
    and "x / pow2 b = of_int f + 1 / 2"
    and "n = (if even f then f else f + 1)"
    and "\<bar>of_int n * pow2 b\<bar> < pow2 2098"
  shows "fl x = Finite (of_int n * pow2 b)"
proof -
  have b: "binade x = b" by (rule binade_eq) (rule assms)+
  have r: "roundEven (x / pow2 b) = n"
    unfolding assms(5) by (rule roundEven_tie) (rule assms(4))
  from assms(6) have "\<not> of_int n * pow2 b \<ge> pow2 2098" "\<not> of_int n * pow2 b \<le> - pow2 2098"
    by linarith+
  then show ?thesis
    by (simp add: fl_def Let_def quantum_def b r)
qed

lemma binadeFrom_top:
  assumes "pow2 (b + n + 52) \<le> \<bar>x\<bar>"
  shows "binadeFrom n b x = b + n"
  using assms
proof (induction n arbitrary: b)
  case 0
  then show ?case by simp
next
  case (Suc n)
  have "pow2 (b + 53) \<le> pow2 (b + Suc n + 52)" by (rule pow2_mono) simp
  with Suc.prems have "\<not> \<bar>x\<bar> < pow2 (b + 53)" by linarith
  moreover from Suc.prems have "pow2 (Suc b + n + 52) \<le> \<bar>x\<bar>" by simp
  ultimately show ?case using Suc.IH [of "Suc b"] by simp
qed

lemma roundEven_ge:
  assumes "of_int n \<le> y"
  shows "n \<le> roundEven y"
proof -
  from assms have "n \<le> \<lfloor>y\<rfloor>" by (simp add: le_floor_iff)
  then show ?thesis unfolding roundEven_def Let_def by simp
qed

lemma fl_overflow:
  assumes "pow2 2098 \<le> x"
  shows "fl x = PosInfinity"
proof -
  have xpos: "0 < x" using assms pow2_pos [of 2098] by linarith
  have "pow2 (0 + 2045 + 52) \<le> \<bar>x\<bar>"
    using assms pow2_mono [of 2097 2098] by simp
  then have "binadeFrom 2045 0 x = 0 + 2045" by (rule binadeFrom_top)
  then have q: "quantum x = pow2 2045" by (simp add: quantum_def binade_def)
  have p: "pow2 2098 = 2 ^ 53 * pow2 2045" using pow2_add [of 53 2045] by simp
  have "of_int (2 ^ 53) \<le> x / pow2 2045"
    using assms pow2_pos [of 2045] unfolding p by (simp add: pos_le_divide_eq)
  then have "2 ^ 53 \<le> roundEven (x / pow2 2045)" by (rule roundEven_ge)
  then have "(2 ^ 53 :: real) \<le> of_int (roundEven (x / pow2 2045))"
    by (metis of_int_le_iff of_int_numeral of_int_power)
  then have "2 ^ 53 * pow2 2045 \<le> of_int (roundEven (x / pow2 2045)) * pow2 2045"
    using pow2_pos [of 2045] by (intro mult_right_mono) simp_all
  then show ?thesis unfolding fl_def Let_def q p by simp
qed

lemma fl_numeral: "(numeral k :: int) < 2 ^ 53 \<Longrightarrow> fl (numeral k) = Finite (numeral k)"
  using fl_of_int [of "numeral k"] by simp

lemma fl_one: "fl 1 = Finite 1"
  using fl_of_int [of 1] by simp


text \<open>The rounding error of one operation, for the error analysis of a chain of operations.\<close>

lemma fl_step:
  assumes "\<bar>y - t\<bar> \<le> e" and "\<bar>t\<bar> \<le> M" and "M + e < 2 ^ 1023"
    and "e + (M + e) / 2 ^ 53 + 1 / 2 ^ 1075 \<le> e'"
  obtains v where "fl y = Finite v" and "\<bar>v - t\<bar> \<le> e'"
proof -
  from assms(1,2) have y: "\<bar>y\<bar> \<le> M + e" by linarith
  have p: "pow2 2097 = 2 ^ 1023" by (simp add: pow2_def)
  from y assms(3) have "\<bar>y\<bar> < pow2 2097" unfolding p by linarith
  then obtain v where v: "fl y = Finite v" "\<bar>v - y\<bar> \<le> \<bar>y\<bar> / 2 ^ 53 + 1 / 2 ^ 1075"
    by (rule fl_error)
  from y have "\<bar>y\<bar> / 2 ^ 53 \<le> (M + e) / 2 ^ 53"
    by (simp add: divide_right_mono)
  with v(2) assms(1,4) have "\<bar>v - t\<bar> \<le> e'" by linarith
  with v(1) that show ?thesis by blast
qed

lemma abs_mult_bound:
  fixes k x :: real
  assumes "\<bar>k\<bar> \<le> kb" and "\<bar>x\<bar> \<le> xb"
  shows "\<bar>k * x\<bar> \<le> kb * xb"
  unfolding abs_mult using assms by (intro mult_mono) simp_all

lemma near_mult:
  fixes k v t :: real
  assumes "\<bar>v - t\<bar> \<le> e" and "\<bar>k\<bar> \<le> kb"
  shows "\<bar>k * v - k * t\<bar> \<le> kb * e"
proof -
  have "k * v - k * t = k * (v - t)" by (simp add: right_diff_distrib)
  then show ?thesis using abs_mult_bound [OF assms(2,1)] by simp
qed

text \<open>The double nearest to \<open>sqrt 3\<close>.\<close>

lemma sqrt3_double: "Math_sqrt (Finite 3) = Finite (7800463371553962 / 2 ^ 52)"
proof -
  have lo: "(7800463371553962 - 1 / 2) / 2 ^ 52 < sqrt 3"
    by (rule real_less_rsqrt) (simp add: power2_eq_square)
  have hi: "sqrt 3 < (7800463371553962 + 1 / 2) / 2 ^ 52"
    by (rule real_less_lsqrt) (simp_all add: power2_eq_square)
  have one: "1 \<le> sqrt 3" by simp
  have two: "sqrt 3 < 2" by (rule real_less_lsqrt) simp_all
  have "fl (sqrt 3) = Finite (of_int 7800463371553962 * pow2 1022)"
  proof (rule fl_eval)
    show "1022 = (0::nat) \<or> pow2 (1022 + 52) \<le> \<bar>sqrt 3\<bar>"
      using one by (simp add: pow2_def)
    show "\<bar>sqrt 3\<bar> < pow2 (1022 + 53)"
      using two by (simp add: pow2_def)
    have e: "sqrt 3 / pow2 1022 = sqrt 3 * 2 ^ 52"
      by (simp add: pow2_def)
    from lo have l: "7800463371553962 - 1 / 2 < sqrt 3 * 2 ^ 52"
      by (simp only: pos_divide_less_eq zero_less_power zero_less_numeral)
    from hi have h: "sqrt 3 * 2 ^ 52 < 7800463371553962 + 1 / 2"
      by (simp only: pos_less_divide_eq zero_less_power zero_less_numeral)
    from l h show "\<bar>sqrt 3 / pow2 1022 - of_int 7800463371553962\<bar> < 1 / 2"
      unfolding e by (simp only: abs_less_iff of_int_numeral) linarith
  qed (simp_all add: pow2_def)
  then show ?thesis by (simp add: pow2_def)
qed

lemma fl_minus: "fl (- x) = fneg (fl x)"
proof -
  have "quantum (- x) = quantum x" by (simp add: quantum_def binade_minus)
  then show ?thesis
    using pow2_pos [of 2098] by (auto simp: fl_def Let_def roundEven_minus)
qed

lemma fl_sqrt3: "fl (sqrt 3) = Finite (7800463371553962 / 2 ^ 52)"
  using sqrt3_double by simp


text \<open>
  The values of the rounding at the arguments that occur in the evaluations below.
\<close>

lemma fl_value_0: "fl (6004799503160661 / 1823077425147505684853565505719355547700399569971585245436292814341774517181276032977904794757305735120649472083851964668764442454428558070967603233164865544023051052435655059013062214762447905528904581431800959172490768971289208489330057268032432283309097348745905276287341195449699521008522680657205797358231134211088256337186042022985728) = Finite (1 / 202402253307310618352495346718917307049556649764142118356901358027430339567995346891960383701437124495187077864316811911389808737385793476867013399940738509921517424276566361364466907742093216341239767678472745068562007483424692698618103355649159556340810056512358769552333414615230502532186327508646006263307707741093494784)"
proof -
  have "fl (6004799503160661 / 1823077425147505684853565505719355547700399569971585245436292814341774517181276032977904794757305735120649472083851964668764442454428558070967603233164865544023051052435655059013062214762447905528904581431800959172490768971289208489330057268032432283309097348745905276287341195449699521008522680657205797358231134211088256337186042022985728) = Finite (of_int 1 * pow2 0)"
    by (rule fl_eval) (simp_all add: pow2_def)
  then show ?thesis by (simp add: pow2_def)
qed

lemma fl_value_1: "fl (6004799503160661 / 911538712573752842426782752859677773850199784985792622718146407170887258590638016488952397378652867560324736041925982334382221227214279035483801616582432772011525526217827529506531107381223952764452290715900479586245384485644604244665028634016216141654548674372952638143670597724849760504261340328602898679115567105544128168593021011492864) = Finite (1 / 202402253307310618352495346718917307049556649764142118356901358027430339567995346891960383701437124495187077864316811911389808737385793476867013399940738509921517424276566361364466907742093216341239767678472745068562007483424692698618103355649159556340810056512358769552333414615230502532186327508646006263307707741093494784)"
proof -
  have "fl (6004799503160661 / 911538712573752842426782752859677773850199784985792622718146407170887258590638016488952397378652867560324736041925982334382221227214279035483801616582432772011525526217827529506531107381223952764452290715900479586245384485644604244665028634016216141654548674372952638143670597724849760504261340328602898679115567105544128168593021011492864) = Finite (of_int 1 * pow2 0)"
    by (rule fl_eval) (simp_all add: pow2_def)
  then show ?thesis by (simp add: pow2_def)
qed

lemma fl_value_2: "fl (3 / 404804506614621236704990693437834614099113299528284236713802716054860679135990693783920767402874248990374155728633623822779617474771586953734026799881477019843034848553132722728933815484186432682479535356945490137124014966849385397236206711298319112681620113024717539104666829230461005064372655017292012526615415482186989568) = Finite (1 / 101201126653655309176247673359458653524778324882071059178450679013715169783997673445980191850718562247593538932158405955694904368692896738433506699970369254960758712138283180682233453871046608170619883839236372534281003741712346349309051677824579778170405028256179384776166707307615251266093163754323003131653853870546747392)"
proof -
  have "fl (3 / 404804506614621236704990693437834614099113299528284236713802716054860679135990693783920767402874248990374155728633623822779617474771586953734026799881477019843034848553132722728933815484186432682479535356945490137124014966849385397236206711298319112681620113024717539104666829230461005064372655017292012526615415482186989568) = Finite (of_int 2 * pow2 0)"
    by (rule fl_eval_tie [where f = 1]) (simp_all add: pow2_def)
  then show ?thesis by (simp add: pow2_def)
qed

lemma fl_value_3: "fl (3900231685776981 / 455769356286876421213391376429838886925099892492896311359073203585443629295319008244476198689326433780162368020962991167191110613607139517741900808291216386005762763108913764753265553690611976382226145357950239793122692242822302122332514317008108070827274337186476319071835298862424880252130670164301449339557783552772064084296510505746432) = Finite (1 / 101201126653655309176247673359458653524778324882071059178450679013715169783997673445980191850718562247593538932158405955694904368692896738433506699970369254960758712138283180682233453871046608170619883839236372534281003741712346349309051677824579778170405028256179384776166707307615251266093163754323003131653853870546747392)"
proof -
  have "fl (3900231685776981 / 455769356286876421213391376429838886925099892492896311359073203585443629295319008244476198689326433780162368020962991167191110613607139517741900808291216386005762763108913764753265553690611976382226145357950239793122692242822302122332514317008108070827274337186476319071835298862424880252130670164301449339557783552772064084296510505746432) = Finite (of_int 2 * pow2 0)"
    by (rule fl_eval) (simp_all add: pow2_def)
  then show ?thesis by (simp add: pow2_def)
qed

lemma fl_value_4: "fl (45705840067699 / 3560698095991222040729620128358116304102342910100752432492759403011278353869679751909970302260362763907518500163773368493680551668805777482358600064775128015670021586788388787134887138207906065486141760608986248383771033147049235330722768101625844303338080759269346242748713272362694376969770860658605072965295184006031750658566488326144) = Finite (3 / 202402253307310618352495346718917307049556649764142118356901358027430339567995346891960383701437124495187077864316811911389808737385793476867013399940738509921517424276566361364466907742093216341239767678472745068562007483424692698618103355649159556340810056512358769552333414615230502532186327508646006263307707741093494784)"
proof -
  have "fl (45705840067699 / 3560698095991222040729620128358116304102342910100752432492759403011278353869679751909970302260362763907518500163773368493680551668805777482358600064775128015670021586788388787134887138207906065486141760608986248383771033147049235330722768101625844303338080759269346242748713272362694376969770860658605072965295184006031750658566488326144) = Finite (of_int 3 * pow2 0)"
    by (rule fl_eval) (simp_all add: pow2_def)
  then show ?thesis by (simp add: pow2_def)
qed

lemma fl_value_5: "fl (3 / 202402253307310618352495346718917307049556649764142118356901358027430339567995346891960383701437124495187077864316811911389808737385793476867013399940738509921517424276566361364466907742093216341239767678472745068562007483424692698618103355649159556340810056512358769552333414615230502532186327508646006263307707741093494784) = Finite (3 / 202402253307310618352495346718917307049556649764142118356901358027430339567995346891960383701437124495187077864316811911389808737385793476867013399940738509921517424276566361364466907742093216341239767678472745068562007483424692698618103355649159556340810056512358769552333414615230502532186327508646006263307707741093494784)"
proof -
  have "fl (3 / 202402253307310618352495346718917307049556649764142118356901358027430339567995346891960383701437124495187077864316811911389808737385793476867013399940738509921517424276566361364466907742093216341239767678472745068562007483424692698618103355649159556340810056512358769552333414615230502532186327508646006263307707741093494784) = Finite (of_int 3 * pow2 0)"
    by (rule fl_eval) (simp_all add: pow2_def)
  then show ?thesis by (simp add: pow2_def)
qed

lemma fl_value_6: "fl (3384364778261 / 35184372088832) = Finite (3384364778261 / 35184372088832)"
proof -
  have "fl (3384364778261 / 35184372088832) = Finite (of_int 6931179065878528 * pow2 1018)"
    by (rule fl_eval) (simp_all add: pow2_def)
  then show ?thesis by (simp add: pow2_def)
qed

lemma fl_value_7: "fl (1 / 3) = Finite (6004799503160661 / 18014398509481984)"
proof -
  have "fl (1 / 3) = Finite (of_int 6004799503160661 * pow2 1020)"
    by (rule fl_eval) (simp_all add: pow2_def)
  then show ?thesis by (simp add: pow2_def)
qed

lemma fl_value_8: "fl (1300077228592327 / 2251799813685248) = Finite (1300077228592327 / 2251799813685248)"
proof -
  have "fl (1300077228592327 / 2251799813685248) = Finite (of_int 5200308914369308 * pow2 1021)"
    by (rule fl_eval) (simp_all add: pow2_def)
  then show ?thesis by (simp add: pow2_def)
qed

lemma fl_value_9: "fl (2 / 3) = Finite (6004799503160661 / 9007199254740992)"
proof -
  have "fl (2 / 3) = Finite (of_int 6004799503160661 * pow2 1021)"
    by (rule fl_eval) (simp_all add: pow2_def)
  then show ?thesis by (simp add: pow2_def)
qed

lemma fl_value_10: "fl (3900231685776981 / 4503599627370496) = Finite (3900231685776981 / 4503599627370496)"
proof -
  have "fl (3900231685776981 / 4503599627370496) = Finite (of_int 7800463371553962 * pow2 1021)"
    by (rule fl_eval) (simp_all add: pow2_def)
  then show ?thesis by (simp add: pow2_def)
qed

lemma fl_value_11: "fl (3 / 2) = Finite (3 / 2)"
proof -
  have "fl (3 / 2) = Finite (of_int 6755399441055744 * pow2 1022)"
    by (rule fl_eval) (simp_all add: pow2_def)
  then show ?thesis by (simp add: pow2_def)
qed

lemma fl_value_12: "fl (11700695057330943 / 4503599627370496) = Finite (45705840067699 / 17592186044416)"
proof -
  have "fl (11700695057330943 / 4503599627370496) = Finite (of_int 5850347528665472 * pow2 1023)"
    by (rule fl_eval_tie [where f = 5850347528665471]) (simp_all add: pow2_def)
  then show ?thesis by (simp add: pow2_def)
qed

lemma fl_value_13: "fl (3900231685776981 / 1125899906842624) = Finite (3900231685776981 / 1125899906842624)"
proof -
  have "fl (3900231685776981 / 1125899906842624) = Finite (of_int 7800463371553962 * pow2 1023)"
    by (rule fl_eval) (simp_all add: pow2_def)
  then show ?thesis by (simp add: pow2_def)
qed

lemma fl_value_14: "fl (20 / 3) = Finite (7505999378950827 / 1125899906842624)"
proof -
  have "fl (20 / 3) = Finite (of_int 7505999378950827 * pow2 1024)"
    by (rule fl_eval) (simp_all add: pow2_def)
  then show ?thesis by (simp add: pow2_def)
qed

lemma fl_value_15: "fl (4570584006769899 / 35184372088832) = Finite (4570584006769899 / 35184372088832)"
proof -
  have "fl (4570584006769899 / 35184372088832) = Finite (of_int 4570584006769899 * pow2 1029)"
    by (rule fl_eval) (simp_all add: pow2_def)
  then show ?thesis by (simp add: pow2_def)
qed

lemma fl_value_16: "fl (975057921444245248 / 7505999378950827) = Finite (4570584006769899 / 35184372088832)"
proof -
  have "fl (975057921444245248 / 7505999378950827) = Finite (of_int 4570584006769899 * pow2 1029)"
    by (rule fl_eval) (simp_all add: pow2_def)
  then show ?thesis by (simp add: pow2_def)
qed

lemma fl_value_17: "fl (3808820005641583 / 4398046511104) = Finite (3808820005641583 / 4398046511104)"
proof -
  have "fl (3808820005641583 / 4398046511104) = Finite (of_int 7617640011283166 * pow2 1031)"
    by (rule fl_eval) (simp_all add: pow2_def)
  then show ?thesis by (simp add: pow2_def)
qed

lemma fl_value_18: "fl (487528960722122625 / 562949953421312) = Finite (3808820005641583 / 4398046511104)"
proof -
  have "fl (487528960722122625 / 562949953421312) = Finite (of_int 7617640011283166 * pow2 1031)"
    by (rule fl_eval) (simp_all add: pow2_def)
  then show ?thesis by (simp add: pow2_def)
qed

lemma fl_value_19: "fl (11268005335362044128414725570560 / 2501999792983609) = Finite (4503599627370498)"
proof -
  have "fl (11268005335362044128414725570560 / 2501999792983609) = Finite (of_int 4503599627370498 * pow2 1074)"
    by (rule fl_eval) (simp_all add: pow2_def)
  then show ?thesis by (simp add: pow2_def)
qed

lemma fl_value_20: "fl (17565081966723824776134772683519 / 2251799813685248) = Finite (7800463371553967)"
proof -
  have "fl (17565081966723824776134772683519 / 2251799813685248) = Finite (of_int 7800463371553967 * pow2 1074)"
    by (rule fl_eval) (simp_all add: pow2_def)
  then show ?thesis by (simp add: pow2_def)
qed

lemma fl_value_21: "fl (30023997515803320) = Finite (30023997515803320)"
proof -
  have "fl (30023997515803320) = Finite (of_int 7505999378950830 * pow2 1076)"
    by (rule fl_eval) (simp_all add: pow2_def)
  then show ?thesis by (simp add: pow2_def)
qed

lemma fl_value_22: "fl (8451004001521533564358730743953 / 281474976710656) = Finite (30023997515803320)"
proof -
  have "fl (8451004001521533564358730743953 / 281474976710656) = Finite (of_int 7505999378950830 * pow2 1076)"
    by (rule fl_eval) (simp_all add: pow2_def)
  then show ?thesis by (simp add: pow2_def)
qed

lemma fl_value_23: "fl (58550273222412750381617069780709 / 1125899906842624) = Finite (52003089143693112)"
proof -
  have "fl (58550273222412750381617069780709 / 1125899906842624) = Finite (of_int 6500386142961639 * pow2 1077)"
    by (rule fl_eval) (simp_all add: pow2_def)
  then show ?thesis by (simp add: pow2_def)
qed

lemma fl_value_24: "fl (311369584599930072662480532861450818982172604761808509944993579968687244108089394018286280888207072821491040266609848475248025482247492203491604046577748424136751422672609205539142743175451258543863844099633754040390121529282154225350114170280379770188897334866671935251557513848705217078130351246706634391552) = PosInfinity"
  by (rule fl_overflow) (simp add: pow2_def)

lemmas fl_values = fl_zero fl_one fl_numeral fl_minus fl_sqrt3
  fl_value_0 fl_value_1 fl_value_2 fl_value_3 fl_value_4 fl_value_5
  fl_value_6 fl_value_7 fl_value_8 fl_value_9 fl_value_10 fl_value_11
  fl_value_12 fl_value_13 fl_value_14 fl_value_15 fl_value_16 fl_value_17
  fl_value_18 fl_value_19 fl_value_20 fl_value_21 fl_value_22 fl_value_23
  fl_value_24

section \<open>Properties of the world coordinates\<close>

text \<open>The constants of \<open>hexToWorld\<close> and \<open>worldToHex\<close> as doubles.\<close>

lemma d_consts:
  "Math_sqrt (Finite 3) = Finite dSqrt3"
  "fdiv (Finite dSqrt3) (Finite 2) = Finite dHalfSqrt3"
  "fdiv (Finite dSqrt3) (Finite 3) = Finite dThirdSqrt3"
  "fdiv (Finite 1) (Finite 3) = Finite dThird"
  "fdiv (Finite 2) (Finite 3) = Finite dTwoThirds"
  "fdiv (Finite 3) (Finite 2) = Finite (3 / 2)"
  by (simp_all add: dSqrt3_def dHalfSqrt3_def dThirdSqrt3_def dThird_def dTwoThirds_def fl_values)


lemma d_bounds:
  "\<bar>dSqrt3\<bar> \<le> 2" "\<bar>dHalfSqrt3\<bar> \<le> 1" "\<bar>dThirdSqrt3\<bar> \<le> 37 / 64" "\<bar>dThird\<bar> \<le> 11 / 32"
  "\<bar>dTwoThirds\<bar> \<le> 11 / 16"
  by (simp_all add: dSqrt3_def dHalfSqrt3_def dThirdSqrt3_def dThird_def dTwoThirds_def)

lemma d_residuals:
  "\<bar>dThirdSqrt3 * dSqrt3 - 1\<bar> \<le> 17 / 144115188075855872"
  "\<bar>dThirdSqrt3 * dHalfSqrt3 - dThird * (3 / 2)\<bar> \<le> 5 / 144115188075855872"
  "\<bar>dTwoThirds * (3 / 2) - 1\<bar> \<le> 1 / 18014398509481984"
  by (simp_all add: dSqrt3_def dHalfSqrt3_def dThirdSqrt3_def dThird_def dTwoThirds_def)

lemma fdiv_finite: "y \<noteq> 0 \<Longrightarrow> fdiv (Finite x) (Finite y) = fl (x / y)"
  by simp

lemma floor_half:
  fixes f :: real
  assumes "\<bar>f - of_int k\<bar> < 1 / 2"
  shows "\<lfloor>f + 1 / 2\<rfloor> = k"
proof (rule floor_unique)
  show "of_int k \<le> f + 1 / 2" using assms by linarith
  show "f + 1 / 2 < of_int k + 1" using assms by linarith
qed

text \<open>Bounds of products, sums and quotients, with the numerical side condition last.\<close>

lemma abs_mult_le:
  fixes k x :: real
  assumes "\<bar>k\<bar> \<le> kb" and "\<bar>x\<bar> \<le> xb" and "kb * xb \<le> M"
  shows "\<bar>k * x\<bar> \<le> M"
  using abs_mult_bound [OF assms(1,2)] assms(3) by linarith

lemma abs_mult_scaled:
  fixes k t s :: real
  assumes "\<bar>k\<bar> \<le> kb" and "\<bar>t\<bar> \<le> s * M" and "0 \<le> s" and "kb * M \<le> M'"
  shows "\<bar>k * t\<bar> \<le> s * M'"
proof -
  have "\<bar>k * t\<bar> \<le> kb * (s * M)" by (rule abs_mult_bound [OF assms(1,2)])
  also have "\<dots> = s * (kb * M)" by simp
  also have "\<dots> \<le> s * M'" by (rule mult_left_mono [OF assms(4,3)])
  finally show ?thesis .
qed

lemma near_mult_scaled:
  fixes k v t s :: real
  assumes "\<bar>v - t\<bar> \<le> s * e" and "\<bar>k\<bar> \<le> kb" and "0 \<le> s" and "kb * e \<le> e'"
  shows "\<bar>k * v - k * t\<bar> \<le> s * e'"
proof -
  have "\<bar>k * v - k * t\<bar> \<le> kb * (s * e)" by (rule near_mult [OF assms(1,2)])
  also have "\<dots> = s * (kb * e)" by simp
  also have "\<dots> \<le> s * e'" by (rule mult_left_mono [OF assms(4,3)])
  finally show ?thesis .
qed

lemma abs_sum_bound:
  fixes a b :: real
  shows "\<bar>a\<bar> \<le> x \<Longrightarrow> \<bar>b\<bar> \<le> y \<Longrightarrow> x + y \<le> e \<Longrightarrow> \<bar>a + b\<bar> \<le> e"
  by linarith

lemma abs_chain:
  fixes a b c :: real
  shows "\<bar>a - b\<bar> \<le> x \<Longrightarrow> \<bar>b - c\<bar> \<le> y \<Longrightarrow> x + y \<le> e \<Longrightarrow> \<bar>a - c\<bar> \<le> e"
  by linarith

lemma near_sum:
  fixes a b :: real
  shows "\<bar>a - ta\<bar> \<le> x \<Longrightarrow> \<bar>b - tb\<bar> \<le> y \<Longrightarrow> x + y \<le> e
    \<Longrightarrow> \<bar>(a + b) - (ta + tb)\<bar> \<le> e"
  by linarith

lemma near_neg_sum:
  fixes a b :: real
  shows "\<bar>a - ta\<bar> \<le> x \<Longrightarrow> \<bar>b - tb\<bar> \<le> y \<Longrightarrow> x + y \<le> e
    \<Longrightarrow> \<bar>(- a + - b) - (- ta - tb)\<bar> \<le> e"
  by linarith

lemma abs_neg_sum_bound:
  fixes a b :: real
  shows "\<bar>a\<bar> \<le> x \<Longrightarrow> \<bar>b\<bar> \<le> y \<Longrightarrow> x + y \<le> e \<Longrightarrow> \<bar>- a - b\<bar> \<le> e"
  by linarith

lemma near_diff_scaled:
  fixes a b s :: real
  assumes "\<bar>a - ta\<bar> \<le> s * e1" and "\<bar>b - tb\<bar> \<le> s * e2" and "0 \<le> s" and "e1 + e2 \<le> e"
  shows "\<bar>(a + - b) - (ta - tb)\<bar> \<le> s * e"
proof -
  have "s * (e1 + e2) \<le> s * e" by (rule mult_left_mono [OF assms(4,3)])
  then have "s * e1 + s * e2 \<le> s * e" by (simp only: distrib_left)
  with assms(1,2) show ?thesis by linarith
qed

lemma abs_diff_scaled:
  fixes ta tb s :: real
  assumes "\<bar>ta\<bar> \<le> s * M1" and "\<bar>tb\<bar> \<le> s * M2" and "0 \<le> s" and "M1 + M2 \<le> M"
  shows "\<bar>ta - tb\<bar> \<le> s * M"
proof -
  have "s * (M1 + M2) \<le> s * M" by (rule mult_left_mono [OF assms(4,3)])
  then have "s * M1 + s * M2 \<le> s * M" by (simp only: distrib_left)
  with assms(1,2) show ?thesis by linarith
qed

lemma abs_unscale:
  fixes s G M :: real
  assumes "\<bar>s * G\<bar> \<le> s * M" and "0 < s"
  shows "\<bar>G\<bar> \<le> M"
proof -
  from assms(2) have "\<bar>s * G\<bar> = s * \<bar>G\<bar>" by (simp add: abs_mult)
  with assms show ?thesis by simp
qed

lemma div_near:
  fixes d s G e :: real
  assumes "0 < s" and "\<bar>d - s * G\<bar> \<le> s * e"
  shows "\<bar>d / s - G\<bar> \<le> e"
proof -
  have "d / s - G = (d - s * G) / s" using assms(1) by (simp add: field_simps)
  then have "\<bar>d / s - G\<bar> = \<bar>d - s * G\<bar> / s" using assms(1) by simp
  also have "\<dots> \<le> e" using assms by (simp add: pos_divide_le_eq mult.commute)
  finally show ?thesis .
qed

lemma fl_step_scaled:
  assumes s1: "1 / 2 ^ 1000 \<le> s" and s2: "s \<le> 2 ^ 900"
    and yt: "\<bar>y - t\<bar> \<le> s * e" and t: "\<bar>t\<bar> \<le> s * M"
    and b: "M + e \<le> 2 ^ 50" and e': "e + (M + e) / 2 ^ 53 + 1 / 2 ^ 75 \<le> e'"
  obtains v where "fl y = Finite v" and "\<bar>v - t\<bar> \<le> s * e'"
proof -
  from s1 have spos: "0 < s" by (simp add: less_le_trans [of 0 "1 / 2 ^ 1000"])
  from yt have "0 \<le> s * e" by linarith
  moreover from t have "0 \<le> s * M" by linarith
  ultimately have "0 \<le> s * (M + e)" by (simp add: distrib_left)
  with spos have nn: "0 \<le> M + e" by (simp add: zero_le_mult_iff)
  have "s * (M + e) \<le> 2 ^ 900 * 2 ^ 50"
    by (rule mult_mono [OF s2 b _ nn]) simp
  also have "\<dots> < (2::real) ^ 1023" by simp
  finally have A: "s * M + s * e < 2 ^ 1023" by (simp add: distrib_left)
  have "1 / 2 ^ 1000 * (1 / 2 ^ 75) \<le> s * (1 / 2 ^ 75)"
    by (rule mult_right_mono [OF s1]) simp
  then have q: "1 / 2 ^ 1075 \<le> s * (1 / 2 ^ 75)" by simp
  have "s * (e + (M + e) / 2 ^ 53 + 1 / 2 ^ 75) \<le> s * e'"
    by (rule mult_left_mono [OF e']) (use spos in simp)
  then have "s * e + (s * M + s * e) / 2 ^ 53 + s * (1 / 2 ^ 75) \<le> s * e'"
    by (simp only: distrib_left times_divide_eq_right)
  with q have B: "s * e + (s * M + s * e) / 2 ^ 53 + 1 / 2 ^ 1075 \<le> s * e'" by linarith
  from fl_step [OF yt t A B] that show ?thesis by blast
qed

text \<open>
  The world position that \<open>hexToWorld\<close> computes for a hex in the range is close to the
  exact one.
\<close>

lemma hexToWorld_near:
  assumes Q: "\<bar>Q\<bar> \<le> 2 ^ 47" and R: "\<bar>R\<bar> \<le> 2 ^ 47"
    and s1: "1 / 2 ^ 1000 \<le> s" and s2: "s \<le> 2 ^ 900"
  obtains x z where "hexToWorld (Finite Q) (Finite R) (Finite s) = (Finite x, Finite z)"
    and "\<bar>x - s * (dSqrt3 * Q + dHalfSqrt3 * R)\<bar> \<le> s * (37 / 256)"
    and "\<bar>z - s * (3 / 2 * R)\<bar> \<le> s * (25 / 512)"
proof -
  from s1 have spos: "0 < s" and sabs: "\<bar>s\<bar> \<le> s"
    by (simp_all add: less_le_trans [of 0 "1 / 2 ^ 1000"])
  have unfold: "hexToWorld (Finite Q) (Finite R) (Finite s) =
      (fmul (Finite s) (fadd (fl (dSqrt3 * Q)) (fl (dHalfSqrt3 * R))),
       fmul (Finite s) (fl (3 / 2 * R)))"
    by (simp only: hexToWorld_def d_consts fmul.simps)
  \<comment> \<open>\<open>Math.sqrt(3) * q\<close>\<close>
  have ta: "\<bar>dSqrt3 * Q\<bar> \<le> 281474976710656"
    by (rule abs_mult_le [OF d_bounds(1) Q]) simp
  obtain a where a: "fl (dSqrt3 * Q) = Finite a" and na: "\<bar>a - dSqrt3 * Q\<bar> \<le> 33 / 1024"
    by (rule fl_step [of "dSqrt3 * Q" "dSqrt3 * Q" 0 "281474976710656" "33 / 1024"]) (use ta in simp_all)
  \<comment> \<open>\<open>(Math.sqrt(3) / 2) * r\<close>\<close>
  have tb: "\<bar>dHalfSqrt3 * R\<bar> \<le> 140737488355328"
    by (rule abs_mult_le [OF d_bounds(2) R]) simp
  obtain b where b: "fl (dHalfSqrt3 * R) = Finite b" and nb: "\<bar>b - dHalfSqrt3 * R\<bar> \<le> 17 / 1024"
    by (rule fl_step [of "dHalfSqrt3 * R" "dHalfSqrt3 * R" 0 "140737488355328" "17 / 1024"]) (use tb in simp_all)
  \<comment> \<open>the sum\<close>
  define E where "E = dSqrt3 * Q + dHalfSqrt3 * R"
  have tE: "\<bar>E\<bar> \<le> 422212465065984"
    unfolding E_def by (rule abs_sum_bound [OF ta tb]) simp
  have nab: "\<bar>(a + b) - E\<bar> \<le> 25 / 512"
    unfolding E_def by (rule near_sum [OF na nb]) simp
  obtain m where m: "fl (a + b) = Finite m" and nm: "\<bar>m - E\<bar> \<le> 99 / 1024"
    by (rule fl_step [OF nab tE, of "99 / 1024"]) simp_all
  \<comment> \<open>\<open>hexSize * (...)\<close>\<close>
  have nsm: "\<bar>s * m - s * E\<bar> \<le> s * (99 / 1024)"
    by (rule near_mult [OF nm sabs])
  have tsE: "\<bar>s * E\<bar> \<le> s * 422212465065984"
    by (rule abs_mult_bound [OF sabs tE])
  obtain x where x: "fl (s * m) = Finite x" and nx: "\<bar>x - s * E\<bar> \<le> s * (37 / 256)"
    by (rule fl_step_scaled [OF s1 s2 nsm tsE, of "37 / 256"]) simp_all
  \<comment> \<open>\<open>(3 / 2) * r\<close>\<close>
  have tz: "\<bar>3 / 2 * R\<bar> \<le> 211106232532992"
    by (rule abs_mult_le [OF _ R, of _ "3 / 2"]) simp_all
  obtain zr where zr: "fl (3 / 2 * R) = Finite zr" and nzr: "\<bar>zr - 3 / 2 * R\<bar> \<le> 25 / 1024"
    by (rule fl_step [of "3 / 2 * R" "3 / 2 * R" 0 "211106232532992" "25 / 1024"]) (use tz in simp_all)
  have nsz: "\<bar>s * zr - s * (3 / 2 * R)\<bar> \<le> s * (25 / 1024)"
    by (rule near_mult [OF nzr sabs])
  have tsz: "\<bar>s * (3 / 2 * R)\<bar> \<le> s * 211106232532992"
    by (rule abs_mult_bound [OF sabs tz])
  obtain z where z: "fl (s * zr) = Finite z" and nz: "\<bar>z - s * (3 / 2 * R)\<bar> \<le> s * (25 / 512)"
    by (rule fl_step_scaled [OF s1 s2 nsz tsz, of "25 / 512"]) simp_all
  have "hexToWorld (Finite Q) (Finite R) (Finite s) = (Finite x, Finite z)"
    by (simp only: unfold a b fadd.simps m fmul.simps x zr z)
  with nx nz that show ?thesis unfolding E_def by blast
qed

text \<open>
  From a world position that close to a hex center, \<open>worldToHex\<close> computes fractional
  coordinates less than one half from the integral ones, and returns the hex.
\<close>

lemma worldToHex_near:
  fixes q r :: int
  assumes Q: "\<bar>of_int q :: real\<bar> \<le> 2 ^ 47" and R: "\<bar>of_int r :: real\<bar> \<le> 2 ^ 47"
    and s1: "1 / 2 ^ 1000 \<le> s" and s2: "s \<le> 2 ^ 900"
    and nx: "\<bar>x - s * (dSqrt3 * of_int q + dHalfSqrt3 * of_int r)\<bar> \<le> s * (37 / 256)"
    and nz: "\<bar>z - s * (3 / 2 * of_int r)\<bar> \<le> s * (25 / 512)"
  shows "worldToHex (Finite x) (Finite z) (Finite s) = (Finite (of_int q), Finite (of_int r))"
proof -
  define Q :: real where "Q = of_int q"
  define R :: real where "R = of_int r"
  define E where "E = dSqrt3 * Q + dHalfSqrt3 * R"
  define Z where "Z = 3 / 2 * R"
  define G where "G = dThirdSqrt3 * E - dThird * Z"
  note Q = Q [folded Q_def] and R = R [folded R_def]
  note nx = nx [folded Q_def R_def, folded E_def] and nz = nz [folded R_def, folded Z_def]
  from s1 have spos: "0 < s" and sabs: "\<bar>s\<bar> \<le> s" and sne: "s \<noteq> 0" and s0: "0 \<le> s"
    by (simp_all add: less_le_trans [of 0 "1 / 2 ^ 1000"])
  \<comment> \<open>magnitudes of the exact quantities\<close>
  have tE1: "\<bar>dSqrt3 * Q\<bar> \<le> 281474976710656" by (rule abs_mult_le [OF d_bounds(1) Q]) simp
  have tE2: "\<bar>dHalfSqrt3 * R\<bar> \<le> 140737488355328" by (rule abs_mult_le [OF d_bounds(2) R]) simp
  have tE: "\<bar>E\<bar> \<le> 422212465065984"
    unfolding E_def by (rule abs_sum_bound [OF tE1 tE2]) simp
  have tZ: "\<bar>Z\<bar> \<le> 211106232532992"
    unfolding Z_def by (rule abs_mult_le [OF _ R, of _ "3 / 2"]) simp_all
  have tsE: "\<bar>s * E\<bar> \<le> s * 422212465065984" by (rule abs_mult_bound [OF sabs tE])
  have tsZ: "\<bar>s * Z\<bar> \<le> s * 211106232532992" by (rule abs_mult_bound [OF sabs tZ])
  \<comment> \<open>\<open>(Math.sqrt(3) / 3) * x\<close>\<close>
  have y1: "\<bar>dThirdSqrt3 * x - dThirdSqrt3 * (s * E)\<bar> \<le> s * (1369 / 16384)"
    by (rule near_mult_scaled [OF nx d_bounds(3) s0]) simp
  have t1: "\<bar>dThirdSqrt3 * (s * E)\<bar> \<le> s * 244091581366272"
    by (rule abs_mult_scaled [OF d_bounds(3) tsE s0]) simp
  obtain p1 where p1: "fl (dThirdSqrt3 * x) = Finite p1"
    and n1: "\<bar>p1 - dThirdSqrt3 * (s * E)\<bar> \<le> s * (1829 / 16384)"
    by (rule fl_step_scaled [OF s1 s2 y1 t1, of "1829 / 16384"]) simp_all
  \<comment> \<open>\<open>(1 / 3) * z\<close>\<close>
  have y2: "\<bar>dThird * z - dThird * (s * Z)\<bar> \<le> s * (275 / 16384)"
    by (rule near_mult_scaled [OF nz d_bounds(4) s0]) simp
  have t2: "\<bar>dThird * (s * Z)\<bar> \<le> s * 72567767433216"
    by (rule abs_mult_scaled [OF d_bounds(4) tsZ s0]) simp
  obtain p2 where p2: "fl (dThird * z) = Finite p2"
    and n2: "\<bar>p2 - dThird * (s * Z)\<bar> \<le> s * (423 / 16384)"
    by (rule fl_step_scaled [OF s1 s2 y2 t2, of "423 / 16384"]) simp_all
  \<comment> \<open>the difference\<close>
  have sG: "dThirdSqrt3 * (s * E) - dThird * (s * Z) = s * G"
    unfolding G_def by (simp add: algebra_simps)
  have y3: "\<bar>(p1 + - p2) - s * G\<bar> \<le> s * (563 / 4096)"
    unfolding sG [symmetric] by (rule near_diff_scaled [OF n1 n2 s0]) simp
  have t3: "\<bar>s * G\<bar> \<le> s * 316659348799488"
    unfolding sG [symmetric] by (rule abs_diff_scaled [OF t1 t2 s0]) simp
  obtain d where d: "fl (p1 + - p2) = Finite d" and n3: "\<bar>d - s * G\<bar> \<le> s * (711 / 4096)"
    by (rule fl_step_scaled [OF s1 s2 y3 t3, of "711 / 4096"]) simp_all
  \<comment> \<open>\<open>fracQ\<close>\<close>
  have y4: "\<bar>d / s - G\<bar> \<le> 711 / 4096" by (rule div_near [OF spos n3])
  have t4: "\<bar>G\<bar> \<le> 316659348799488" by (rule abs_unscale [OF t3 spos])
  obtain fq where fq: "fl (d / s) = Finite fq" and n4: "\<bar>fq - G\<bar> \<le> 859 / 4096"
    by (rule fl_step [OF y4 t4, of "859 / 4096"]) simp_all
  have gq0: "G - Q = (dThirdSqrt3 * dSqrt3 - 1) * Q + (dThirdSqrt3 * dHalfSqrt3 - dThird * (3 / 2)) * R"
    unfolding G_def E_def Z_def by (simp add: algebra_simps)
  have gq1: "\<bar>(dThirdSqrt3 * dSqrt3 - 1) * Q\<bar> \<le> 17 / 1024"
    by (rule abs_mult_le [OF d_residuals(1) Q]) simp
  have gq2: "\<bar>(dThirdSqrt3 * dHalfSqrt3 - dThird * (3 / 2)) * R\<bar> \<le> 5 / 1024"
    by (rule abs_mult_le [OF d_residuals(2) R]) simp
  have gq: "\<bar>G - Q\<bar> \<le> 11 / 512"
    unfolding gq0 by (rule abs_sum_bound [OF gq1 gq2]) simp
  have nq: "\<bar>fq - Q\<bar> \<le> 947 / 4096"
    by (rule abs_chain [OF n4 gq]) simp
  \<comment> \<open>\<open>fracR\<close>\<close>
  have wz: "dTwoThirds * (s * Z) = s * (dTwoThirds * Z)" by simp
  have y5: "\<bar>dTwoThirds * z - s * (dTwoThirds * Z)\<bar> \<le> s * (275 / 8192)"
    unfolding wz [symmetric] by (rule near_mult_scaled [OF nz d_bounds(5) s0]) simp
  have t5: "\<bar>s * (dTwoThirds * Z)\<bar> \<le> s * 145135534866432"
    unfolding wz [symmetric] by (rule abs_mult_scaled [OF d_bounds(5) tsZ s0]) simp
  obtain n where n: "fl (dTwoThirds * z) = Finite n"
    and n5: "\<bar>n - s * (dTwoThirds * Z)\<bar> \<le> s * (415 / 8192)"
    by (rule fl_step_scaled [OF s1 s2 y5 t5, of "415 / 8192"]) simp_all
  have y6: "\<bar>n / s - dTwoThirds * Z\<bar> \<le> 415 / 8192" by (rule div_near [OF spos n5])
  have t6: "\<bar>dTwoThirds * Z\<bar> \<le> 145135534866432" by (rule abs_unscale [OF t5 spos])
  obtain fr where fr: "fl (n / s) = Finite fr" and n6: "\<bar>fr - dTwoThirds * Z\<bar> \<le> 555 / 8192"
    by (rule fl_step [OF y6 t6, of "555 / 8192"]) simp_all
  have gr0: "dTwoThirds * Z - R = (dTwoThirds * (3 / 2) - 1) * R"
    unfolding Z_def by (simp add: algebra_simps)
  have gr: "\<bar>dTwoThirds * Z - R\<bar> \<le> 1 / 128"
    unfolding gr0 by (rule abs_mult_le [OF d_residuals(3) R]) simp
  have nr: "\<bar>fr - R\<bar> \<le> 619 / 8192"
    by (rule abs_chain [OF n6 gr]) simp
  \<comment> \<open>\<open>fracS\<close>\<close>
  have y7: "\<bar>(- fq + - fr) - (- Q - R)\<bar> \<le> 2513 / 8192"
    by (rule near_neg_sum [OF nq nr]) simp
  have t7: "\<bar>- Q - R\<bar> \<le> 281474976710656"
    by (rule abs_neg_sum_bound [OF Q R]) simp
  obtain fs where fs: "fl (- fq + - fr) = Finite fs" and ns: "\<bar>fs - (- Q - R)\<bar> \<le> 2777 / 8192"
    by (rule fl_step [OF y7 t7, of "2777 / 8192"]) simp_all
  \<comment> \<open>the rounded coordinates\<close>
  have "(947 / 4096 :: real) < 1 / 2" by simp
  with nq have "\<bar>fq - of_int q\<bar> < 1 / 2" unfolding Q_def by linarith
  then have rq: "\<lfloor>fq + 1 / 2\<rfloor> = q" by (rule floor_half)
  have "(619 / 8192 :: real) < 1 / 2" by simp
  with nr have "\<bar>fr - of_int r\<bar> < 1 / 2" unfolding R_def by linarith
  then have rr: "\<lfloor>fr + 1 / 2\<rfloor> = r" by (rule floor_half)
  have "(2777 / 8192 :: real) < 1 / 2" by simp
  with ns have "\<bar>fs - (- Q - R)\<bar> < 1 / 2" by linarith
  then have "\<bar>fs - of_int (- q - r)\<bar> < 1 / 2" unfolding Q_def R_def by simp
  then have rs: "\<lfloor>fs + 1 / 2\<rfloor> = - q - r" by (rule floor_half)
  have fracQ: "fdiv (fsub (fmul (fdiv (Math_sqrt (Finite 3)) (Finite 3)) (Finite x))
      (fmul (fdiv (Finite 1) (Finite 3)) (Finite z))) (Finite s) = Finite fq"
    by (simp only: d_consts fmul.simps fsub_def fneg.simps fadd.simps p1 p2 d fdiv_finite [OF sne] fq)
  have fracR: "fdiv (fmul (fdiv (Finite 2) (Finite 3)) (Finite z)) (Finite s) = Finite fr"
    by (simp only: d_consts fmul.simps n fdiv_finite [OF sne] fr)
  have fracS: "fsub (fneg (Finite fq)) (Finite fr) = Finite fs"
    by (simp only: fsub_def fneg.simps fadd.simps fs)
  from Q have "\<bar>q\<bar> \<le> 2 ^ 47" unfolding Q_def by (simp add: of_int_abs [symmetric] del: of_int_abs)
  then have bq: "\<bar>q\<bar> < 2 ^ 53" by simp
  from R have "\<bar>r\<bar> \<le> 2 ^ 47" unfolding R_def by (simp add: of_int_abs [symmetric] del: of_int_abs)
  then have br: "\<bar>r\<bar> < 2 ^ 53" by simp
  have b1: "fsub (fneg (Finite (of_int r))) (Finite (of_int (- q - r))) = Finite (of_int q)"
    using fl_of_int [OF bq] by (simp add: fsub_def)
  have b2: "fsub (fneg (Finite (of_int q))) (Finite (of_int (- q - r))) = Finite (of_int r)"
    using fl_of_int [OF br] by (simp add: fsub_def)
  show ?thesis
    unfolding worldToHex_def fracQ fracR Let_def fracS Math_round.simps rq rr rs b1 b2
    by simp
qed

lemma TILE_CONFIG_hexSize_value:
  "TILE_CONFIG_hexSize = Finite (7505999378950827 / 1125899906842624)"
  by (simp add: TILE_CONFIG_hexSize_def fl_values)

lemma hexToWorld_far:
  "hexToWorld (Finite 4503599627370499) (Finite 0) (Finite (7505999378950827 / 1125899906842624)) = (Finite (52003089143693112), Finite 0)"
  by (simp add: hexToWorld_def fl_values)

lemma worldToHex_far:
  "worldToHex (Finite (52003089143693112)) (Finite 0) (Finite (7505999378950827 / 1125899906842624)) = (Finite 4503599627370498, Finite 0)"
  by (simp add: worldToHex_def Let_def fsub_def fl_values)

lemma hexToWorld_tiny:
  "hexToWorld (Finite 2) (Finite (- 1)) (Finite (1 / 2 ^ 1074)) = (Finite (3 / 202402253307310618352495346718917307049556649764142118356901358027430339567995346891960383701437124495187077864316811911389808737385793476867013399940738509921517424276566361364466907742093216341239767678472745068562007483424692698618103355649159556340810056512358769552333414615230502532186327508646006263307707741093494784), Finite (- (1 / 101201126653655309176247673359458653524778324882071059178450679013715169783997673445980191850718562247593538932158405955694904368692896738433506699970369254960758712138283180682233453871046608170619883839236372534281003741712346349309051677824579778170405028256179384776166707307615251266093163754323003131653853870546747392)))"
  by (simp add: hexToWorld_def fl_values)

lemma worldToHex_tiny:
  "worldToHex (Finite (3 / 202402253307310618352495346718917307049556649764142118356901358027430339567995346891960383701437124495187077864316811911389808737385793476867013399940738509921517424276566361364466907742093216341239767678472745068562007483424692698618103355649159556340810056512358769552333414615230502532186327508646006263307707741093494784)) (Finite (- (1 / 101201126653655309176247673359458653524778324882071059178450679013715169783997673445980191850718562247593538932158405955694904368692896738433506699970369254960758712138283180682233453871046608170619883839236372534281003741712346349309051677824579778170405028256179384776166707307615251266093163754323003131653853870546747392))) (Finite (1 / 2 ^ 1074)) = (Finite 3, Finite (- 1))"
  by (simp add: worldToHex_def Let_def fsub_def fl_values)

lemma hexToWorld_huge:
  "hexToWorld (Finite 2) (Finite 0) (Finite (2 ^ 1023)) = (PosInfinity, Finite 0)"
  by (simp add: hexToWorld_def fl_values)

lemma worldToHex_huge:
  "worldToHex PosInfinity (Finite 0) (Finite (2 ^ 1023)) = (PosInfinity, Finite 0)"
  by (simp add: worldToHex_def Let_def fsub_def fl_values)

text \<open>
  C8 at concrete inputs. With the hex size \<^verbatim>\<open>TILE_CONFIG.hexSize\<close>, the hex
  \<open>(2 ^ 52 + 3, 0)\<close> is converted to a world position that \<open>worldToHex\<close> maps to
  \<open>(2 ^ 52 + 2, 0)\<close>: the world coordinate \<open>x\<close> is near \<open>5.2 * 10 ^ 16\<close>, where
  neighbouring doubles are 8 apart. With the smallest positive hex size \<open>2 ^ (-1074)\<close>, the hex \<open>(2, -1)\<close> comes back as \<open>(3, -1)\<close>. With
  the hex size \<open>2 ^ 1023\<close>, the world position of the hex \<open>(2, 0)\<close> overflows and the hex
  comes back as \<open>(Infinity, 0)\<close>. So the conversion there and back is not the identity
  for every integer hex and every positive hex size.
\<close>

theorem worldToHex_hexToWorld_not_identity:
  "worldToHex (fst (hexToWorld (Finite 4503599627370499) (Finite 0) TILE_CONFIG_hexSize))
              (snd (hexToWorld (Finite 4503599627370499) (Finite 0) TILE_CONFIG_hexSize))
              TILE_CONFIG_hexSize
     = (Finite 4503599627370498, Finite 0) \<and>
   worldToHex (fst (hexToWorld (Finite 2) (Finite (- 1)) (Finite (1 / 2 ^ 1074))))
              (snd (hexToWorld (Finite 2) (Finite (- 1)) (Finite (1 / 2 ^ 1074))))
              (Finite (1 / 2 ^ 1074))
     = (Finite 3, Finite (- 1)) \<and>
   worldToHex (fst (hexToWorld (Finite 2) (Finite 0) (Finite (2 ^ 1023))))
              (snd (hexToWorld (Finite 2) (Finite 0) (Finite (2 ^ 1023))))
              (Finite (2 ^ 1023))
     = (PosInfinity, Finite 0)"
  unfolding TILE_CONFIG_hexSize_value hexToWorld_far hexToWorld_tiny hexToWorld_huge
    fst_conv snd_conv worldToHex_far worldToHex_tiny worldToHex_huge
  by simp

text \<open>
  C8, for hexes and hex sizes away from the limits of the doubles. For every integer
  axial hex \<open>(q, r)\<close> with \<open>\<bar>q\<bar> \<le> 2 ^ 47\<close> and \<open>\<bar>r\<bar> \<le> 2 ^ 47\<close> and every hex size \<open>s\<close> with
  \<open>2 ^ (-1000) \<le> s \<le> 2 ^ 900\<close> (every real in that range, in particular every double),
  converting the hex to world coordinates and back, in double arithmetic, yields
  exactly \<open>(q, r)\<close>.
\<close>

theorem worldToHex_hexToWorld:
  fixes q r :: int
  assumes q: "\<bar>q\<bar> \<le> 2 ^ 47" and r: "\<bar>r\<bar> \<le> 2 ^ 47"
    and s1: "1 / 2 ^ 1000 \<le> s" and s2: "s \<le> 2 ^ 900"
  shows "worldToHex (fst (hexToWorld (Finite (of_int q)) (Finite (of_int r)) (Finite s)))
                    (snd (hexToWorld (Finite (of_int q)) (Finite (of_int r)) (Finite s)))
                    (Finite s)
           = (Finite (of_int q), Finite (of_int r))"
proof -
  from q have "(of_int \<bar>q\<bar> :: real) \<le> of_int (2 ^ 47)" by (simp only: of_int_le_iff)
  then have Q: "\<bar>of_int q :: real\<bar> \<le> 2 ^ 47" by simp
  from r have "(of_int \<bar>r\<bar> :: real) \<le> of_int (2 ^ 47)" by (simp only: of_int_le_iff)
  then have R: "\<bar>of_int r :: real\<bar> \<le> 2 ^ 47" by simp
  obtain x z where h: "hexToWorld (Finite (of_int q)) (Finite (of_int r)) (Finite s) = (Finite x, Finite z)"
    and nx: "\<bar>x - s * (dSqrt3 * of_int q + dHalfSqrt3 * of_int r)\<bar> \<le> s * (37 / 256)"
    and nz: "\<bar>z - s * (3 / 2 * of_int r)\<bar> \<le> s * (25 / 512)"
    by (rule hexToWorld_near [OF Q R s1 s2])
  show ?thesis
    unfolding h fst_conv snd_conv by (rule worldToHex_near [OF Q R s1 s2 nx nz])
qed

theorem worldToHex_hexToWorld_witness:
  "\<bar>2::int\<bar> \<le> 2 ^ 47 \<and> \<bar>- 1::int\<bar> \<le> 2 ^ 47 \<and>
   TILE_CONFIG_hexSize = Finite (7505999378950827 / 1125899906842624) \<and>
   (1::real) / 2 ^ 1000 \<le> 7505999378950827 / 1125899906842624 \<and>
   (7505999378950827 / 1125899906842624::real) \<le> 2 ^ 900 \<and>
   worldToHex (fst (hexToWorld (Finite 2) (Finite (- 1)) TILE_CONFIG_hexSize))
              (snd (hexToWorld (Finite 2) (Finite (- 1)) TILE_CONFIG_hexSize))
              TILE_CONFIG_hexSize
     = (Finite 2, Finite (- 1))"
  using worldToHex_hexToWorld [of 2 "- 1" "7505999378950827 / 1125899906842624"]
  by (simp add: TILE_CONFIG_hexSize_value)

section \<open>Properties of the floating origin\<close>

lemma worldToHex_east:
  "worldToHex (Finite 1500) (Finite 0) (Finite (7505999378950827 / 1125899906842624)) = (Finite 130, Finite 0)"
  by (simp add: worldToHex_def Let_def fsub_def fl_values)

lemma worldToHex_west:
  "worldToHex (Finite (- 1500)) (Finite 0) (Finite (7505999378950827 / 1125899906842624)) = (Finite (- 130), Finite 0)"
  by (simp add: worldToHex_def Let_def fsub_def fl_values)

lemma worldToHex_zero:
  "worldToHex (Finite 0) (Finite 0) (Finite (7505999378950827 / 1125899906842624)) = (Finite 0, Finite 0)"
  by (simp add: worldToHex_def Let_def fsub_def fl_values)

text \<open>
  C2 at a concrete state. The avatar is at \<open>(1500, 0, 0)\<close>, farther than the threshold
  from the origin \<open>(0, 0, 0)\<close>, with no accumulated offset: its true world hex is
  \<open>(-130, 0)\<close>. The rebase moves the avatar to the origin and accumulates
  \<open>worldToHex 1500 0 = (130, 0)\<close>: after it the true world hex is \<open>(130, 0)\<close>.
\<close>

theorem updateFloatingOrigin_changes_true_hex:
  "fgt (v3_distance (avatarPosition walkedState) (currentFloatingOrigin walkedState))
       (floatingOriginThreshold walkedState) \<and>
   trueWorldHex walkedState = (Finite (- 130), Finite 0) \<and>
   trueWorldHex (updateFloatingOrigin walkedState) = (Finite 130, Finite 0)"
  by (simp add: walkedState_def trueWorldHex_def getCurrentTileHex_def updateFloatingOrigin_def
      v3_distance_def v3_subtract_def Let_def fsub_def TILE_CONFIG_hexSize_value fl_values
      worldToHex_east worldToHex_west worldToHex_zero)

section \<open>Properties of the constraint parser\<close>

lemma clamp_range:
  "Math_max (Num 0) (Math_min (Num 1) x) = NaN \<or>
   (\<exists>g. Math_max (Num 0) (Math_min (Num 1) x) = Num g \<and> 0 \<le> g \<and> g \<le> 1)"
  by (cases x) (simp_all add: Math_max_def Math_min_def)

lemma parseLayoutConstraints_grassRatio:
  "grassRatio (parseLayoutConstraints JSON_parse output) = NaN \<or>
   (\<exists>g. grassRatio (parseLayoutConstraints JSON_parse output) = Num g \<and> 0 \<le> g \<and> g \<le> 1)"
proof (cases "parseJsonConstraints JSON_parse output")
  case None
  then show ?thesis
    using clamp_range by (simp add: parseLayoutConstraints_def Let_def)
next
  case (Some constraints)
  then have "\<exists>g. grassRatio constraints = Num g \<and> 0 \<le> g \<and> g \<le> 1"
    by (auto simp: parseJsonConstraints_def split: option.splits json.splits if_splits)
  with Some show ?thesis
    by (simp add: parseLayoutConstraints_def)
qed

text \<open>
  C9 at a concrete input. For the output \<^verbatim>\<open>grassRatio: .\<close> there is no JSON fragment,
  the regular expression for the grass ratio captures \<^verbatim>\<open>.\<close>, \<^verbatim>\<open>parseFloat\<close> of it
  is \<^verbatim>\<open>NaN\<close>, and the clamp returns \<^verbatim>\<open>NaN\<close>: the grass ratio of the result is
  neither the default nor a number of the interval from 0 to 1.
\<close>

theorem parseLayoutConstraints_nan_grassRatio:
  "parseLayoutConstraints JSON_parse ''grassRatio: .'' =
     \<lparr>buildingDensity = DensityMedium, clustering = Random, grassRatio = NaN,
      buildingSizeHint = SizeMedium\<rparr>"
  by code_simp

end
